theory Spec2Isabelle
  imports Main
begin

section \<open>The turn state machine of the client (app/(tabs)/index.tsx)\<close>

text \<open>
  The client keeps one value of type \<open>State\<close> and feeds it \<open>Event\<close>s through
  \<open>reducer\<close> (React's \<open>useReducer\<close>). An event object carries nothing but its
  \<open>type\<close> tag, so an event is its tag.
\<close>

datatype State = Idle | Listening | Uploading | Speaking | Error

datatype Event =
  PRESS_DOWN | PRESS_UP | UPLOAD_START | UPLOAD_OK | UPLOAD_ERR | PLAY_END | CANCEL

text \<open>\<open>reducer\<close>: a switch on the state, each case testing the event's tag.\<close>

fun reducer :: "State \<Rightarrow> Event \<Rightarrow> State" where
  "reducer Idle ev = (if ev = PRESS_DOWN then Listening else Idle)"
| "reducer Listening ev =
     (if ev = PRESS_UP then Uploading
      else if ev = CANCEL then Idle
      else Listening)"
| "reducer Uploading ev =
     (if ev = UPLOAD_OK then Speaking
      else if ev = UPLOAD_ERR then Error
      else Uploading)"
| "reducer Speaking ev = (if ev = PLAY_END then Idle else Speaking)"
| "reducer Error ev = (if ev = CANCEL then Idle else Error)"

text \<open>
  The transition table as the specification prints it (section 4.1), row by row: state,
  event, next state. \<open>table_next\<close> reads it the way the specification says: a listed pair
  gives its next state, an unlisted pair leaves the state as it is.
\<close>

definition transition_table :: "((State \<times> Event) \<times> State) list" where
  "transition_table =
     [((Idle, PRESS_DOWN), Listening),
      ((Listening, PRESS_UP), Uploading),
      ((Listening, CANCEL), Idle),
      ((Uploading, UPLOAD_OK), Speaking),
      ((Uploading, UPLOAD_ERR), Error),
      ((Speaking, PLAY_END), Idle),
      ((Error, CANCEL), Idle)]"

definition table_next :: "State \<Rightarrow> Event \<Rightarrow> State" where
  "table_next s ev = (case map_of transition_table (s, ev) of Some s' \<Rightarrow> s' | None \<Rightarrow> s)"

section \<open>Values the collaborators hand back\<close>

text \<open>
  A thrown value, as the catch blocks read it. \<open>ErrorObj m\<close> is an \<open>Error\<close> whose
  \<open>message\<close> is \<open>m\<close>; \<open>Other s\<close> is a thrown value that is no \<open>Error\<close> and has no
  \<open>message\<close>, with \<open>String(e) = s\<close>.
\<close>

datatype thrown = ErrorObj string | Other string

text \<open>\<open>e?.message\<close>: \<open>None\<close> is \<open>undefined\<close>.\<close>

fun message_of :: "thrown \<Rightarrow> string option" where
  "message_of (ErrorObj m) = Some m"
| "message_of (Other s) = None"

text \<open>
  A parsed JSON value. Numbers are kept as integers (the code looks at a number only to
  see that it is no object); \<open>JObj\<close> lists the own properties of an object in order,
  each key once, as \<open>JSON.parse\<close> builds it.
\<close>

datatype json =
  JNull | JBool bool | JNum int | JStr string | JArr "json list" | JObj "(string \<times> json) list"

section \<open>The conversation history of the client\<close>

datatype Role = User | Assistant

record ChatMsg =
  role :: Role
  content :: string

text \<open>
  \<open>Array.prototype.slice(start)\<close> with no end: a negative start counts from the end of
  the array and stops at its beginning, a start past the end gives the empty array.
\<close>

definition slice :: "int \<Rightarrow> 'a list \<Rightarrow> 'a list" where
  "slice start xs =
     (let len = int (length xs);
          k = (if start < 0 then max (len + start) 0 else min start len)
      in drop (nat k) xs)"

text \<open>
  The updater handed to \<open>setHistory\<close> in \<open>stopAndSend\<close>: the two entries of the turn go
  after the previous ones and the result keeps its last 12. \<open>replyText ?? ""\<close> reads a
  missing reply text as the empty string.
\<close>

definition appendTurn :: "string \<Rightarrow> string option \<Rightarrow> ChatMsg list \<Rightarrow> ChatMsg list" where
  "appendTurn transcript replyText prev =
     (let next = prev @
            [\<lparr>role = User, content = transcript\<rparr>,
             \<lparr>role = Assistant, content = (case replyText of Some r \<Rightarrow> r | None \<Rightarrow> [])\<rparr>]
      in if length next > 12 then slice (- 12) next else next)"

text \<open>
  The history after a run of turns that each reached \<open>setHistory\<close>, given as their
  transcripts and reply texts in order. The component starts from \<open>useState([])\<close>.
\<close>

fun appendTurns :: "ChatMsg list \<Rightarrow> (string \<times> string option) list \<Rightarrow> ChatMsg list" where
  "appendTurns h [] = h"
| "appendTurns h ((t, r) # turns) = appendTurns (appendTurn t r h) turns"

text \<open>What \<open>JSON.stringify\<close> is given for a history: an array of \<open>{role, content}\<close> objects.\<close>

fun role_name :: "Role \<Rightarrow> string" where
  "role_name User = ''user''"
| "role_name Assistant = ''assistant''"

definition msg_json :: "ChatMsg \<Rightarrow> json" where
  "msg_json m = JObj [(''role'', JStr (role_name (role m))), (''content'', JStr (content m))]"

definition history_json :: "ChatMsg list \<Rightarrow> json" where
  "history_json h = JArr (map msg_json h)"

section \<open>The controller of the client: \<open>Home\<close>\<close>

text \<open>
  The objects of the audio library, as records of what their methods will answer when
  the controller calls them: \<open>None\<close> for a promise that resolves, \<open>Some e\<close> for one that
  rejects with \<open>e\<close>. \<open>getURI\<close> answers a string or \<open>null\<close>.
\<close>

record Recording =
  prepareToRecordAsync :: "thrown option"
  startAsync :: "thrown option"
  stopAndUnloadAsync :: "thrown option"
  getURI :: "string option"

record Sound =
  source_uri :: string
  playAsync :: "thrown option"

text \<open>The request \<open>stopAndSend\<close> hands to \<open>fetch\<close>: the URL, the method and the two parts of the form.\<close>

record UploadRequest =
  url :: string
  http_method :: string
  audio_uri :: string
  audio_name :: string
  audio_type :: string
  history_field :: string

text \<open>
  The body of a response as \<open>stopAndSend\<close> destructures it; a field that is missing (or
  \<open>null\<close>) is \<open>None\<close>.
\<close>

record TurnReply =
  audioBase64 :: "string option"
  transcript :: "string option"
  replyText :: "string option"

text \<open>
  A response: \<open>ok\<close>, \<open>status\<close>, and what \<open>text()\<close> and \<open>json()\<close> resolve to or reject with.
\<close>

record FetchResponse =
  ok :: bool
  status :: nat
  text_body :: "thrown + string"
  json_body :: "thrown + TurnReply"

datatype FetchResult = Rejects thrown | Responds FetchResponse

text \<open>
  What \<open>stopAndSend\<close> calls outside the component: the platform name, \<open>JSON.stringify\<close>,
  \<open>fetch\<close> and \<open>Audio.Sound.createAsync\<close> (given the data URI).
\<close>

record SendEnv =
  Platform_OS :: string
  JSON_stringify :: "json \<Rightarrow> string"
  fetch :: "UploadRequest \<Rightarrow> FetchResult"
  createAsync :: "string \<Rightarrow> thrown + Sound"

text \<open>
  The component's state: the reducer's state, the three \<open>useState\<close> cells the controller
  writes, and the two refs. The last two fields are not in the source: \<open>entered\<close> lists
  the states the reducer has returned, one per dispatch and oldest first, and \<open>sent\<close>
  lists the requests handed to \<open>fetch\<close>. Nothing reads them.
\<close>

record Home =
  state :: State
  errorMsg :: "string option"
  history :: "ChatMsg list"
  isReplayDisabled :: bool
  recordingRef :: "Recording option"
  soundRef :: "Sound option"
  entered :: "State list"
  sent :: "UploadRequest list"

definition initial_Home :: Home where
  "initial_Home =
     \<lparr>state = Idle, errorMsg = None, history = [], isReplayDisabled = True,
      recordingRef = None, soundRef = None, entered = [], sent = []\<rparr>"

definition dispatch :: "Event \<Rightarrow> Home \<Rightarrow> Home" where
  "dispatch ev c =
     (let s = reducer (state c) ev in c\<lparr>state := s, entered := entered c @ [s]\<rparr>)"

definition API_URL :: string where
  "API_URL = ''https://nonlethally-ostracizable-janey.ngrok-free.dev/api/turn''"

text \<open>The catch block of \<open>startRecording\<close>.\<close>

definition startRecording_catch :: "thrown \<Rightarrow> Home \<Rightarrow> Home" where
  "startRecording_catch e c =
     dispatch CANCEL
       (c\<lparr>errorMsg :=
            Some (case message_of e of Some m \<Rightarrow> m | None \<Rightarrow> ''Failed to start recording'')\<rparr>)"

text \<open>
  \<open>startRecording\<close>, given the object \<open>new Audio.Recording()\<close> returns: \<open>PRESS_DOWN\<close> is
  dispatched first, the recorder is prepared and started, and the ref is set last.
\<close>

definition startRecording :: "Recording \<Rightarrow> Home \<Rightarrow> Home" where
  "startRecording rec c =
     (let c1 = dispatch PRESS_DOWN c in
      case prepareToRecordAsync rec of
        Some e \<Rightarrow> startRecording_catch e c1
      | None \<Rightarrow>
          (case startAsync rec of
             Some e \<Rightarrow> startRecording_catch e c1
           | None \<Rightarrow> c1\<lparr>recordingRef := Some rec\<rparr>))"

text \<open>The catch block of \<open>stopAndSend\<close>.\<close>

definition stopAndSend_catch :: "thrown \<Rightarrow> Home \<Rightarrow> Home" where
  "stopAndSend_catch e c =
     dispatch UPLOAD_ERR
       (c\<lparr>errorMsg :=
            Some (case message_of e of Some m \<Rightarrow> m | None \<Rightarrow> ''Upload/play error'')\<rparr>)"

text \<open>A number in a template literal: its decimal digits.\<close>

fun decimal :: "nat \<Rightarrow> string" where
  "decimal n =
     (if n < 10 then [char_of (48 + n)]
      else decimal (n div 10) @ [char_of (48 + n mod 10)])"

text \<open>
  \<open>uri.split("/").pop()\<close>: what follows the last slash. \<open>split\<close> never returns an empty
  array, so the \<open>??\<close> default of the source is never taken.
\<close>

definition last_segment :: "string \<Rightarrow> string" where
  "last_segment uri = rev (takeWhile (\<lambda>ch. ch \<noteq> CHR ''/'') (rev uri))"

definition upload_request :: "SendEnv \<Rightarrow> Home \<Rightarrow> string \<Rightarrow> UploadRequest" where
  "upload_request env c uri =
     \<lparr>url = API_URL, http_method = ''POST'', audio_uri = uri,
      audio_name = last_segment uri,
      audio_type = (if Platform_OS env = ''ios'' then ''audio/caf'' else ''audio/m4a''),
      history_field = JSON_stringify env (history_json (slice (- 6) (history c)))\<rparr>"

text \<open>
  \<open>stopAndSend\<close> from the response on: the body is read, the history is updated when
  a transcript came back, the previous sound is dropped, the new one is created and
  played. Stopping and unloading the previous sound may fail; both failures are swallowed.
\<close>

definition play_reply :: "SendEnv \<Rightarrow> TurnReply \<Rightarrow> string \<Rightarrow> Home \<Rightarrow> Home" where
  "play_reply env reply audio c =
     (let c1 = (case transcript reply of
                  Some t \<Rightarrow> c\<lparr>history := appendTurn t (replyText reply) (history c)\<rparr>
                | None \<Rightarrow> c);
          c2 = (case soundRef c1 of Some old \<Rightarrow> c1\<lparr>soundRef := None\<rparr> | None \<Rightarrow> c1)
      in case createAsync env (''data:audio/mpeg;base64,'' @ audio) of
           Inl e \<Rightarrow> stopAndSend_catch e c2
         | Inr sound \<Rightarrow>
             (let c3 = dispatch UPLOAD_OK (c2\<lparr>soundRef := Some sound\<rparr>);
                  c4 = c3\<lparr>isReplayDisabled := False\<rparr>
              in case playAsync sound of
                   Some e \<Rightarrow> stopAndSend_catch e c4
                 | None \<Rightarrow> c4))"

text \<open>\<open>stopAndSend\<close> from the call of \<open>fetch\<close> to the check of the audio payload.\<close>

definition receive :: "SendEnv \<Rightarrow> FetchResult \<Rightarrow> Home \<Rightarrow> Home" where
  "receive env res c =
     (case res of
        Rejects e \<Rightarrow> stopAndSend_catch e c
      | Responds resp \<Rightarrow>
          if \<not> ok resp then
            (case text_body resp of
               Inl e \<Rightarrow> stopAndSend_catch e c
             | Inr t \<Rightarrow>
                 stopAndSend_catch
                   (ErrorObj (''Backend '' @ decimal (status resp) @ '': '' @ t)) c)
          else
            (case json_body resp of
               Inl e \<Rightarrow> stopAndSend_catch e c
             | Inr reply \<Rightarrow>
                 (case audioBase64 reply of
                    None \<Rightarrow> stopAndSend_catch (ErrorObj ''No audioBase64 in response'') c
                  | Some audio \<Rightarrow>
                      if audio = [] then
                        stopAndSend_catch (ErrorObj ''No audioBase64 in response'') c
                      else play_reply env reply audio c)))"

text \<open>
  \<open>stopAndSend\<close>. With no recorder in the ref it returns at once. Otherwise the
  recorder is stopped, its URI is read, the ref is cleared and \<open>PRESS_UP\<close> is dispatched;
  only then is the URI tested (\<open>!uri\<close> holds for \<open>null\<close> and for the empty string).
\<close>

definition stopAndSend :: "SendEnv \<Rightarrow> Home \<Rightarrow> Home" where
  "stopAndSend env c =
     (case recordingRef c of
        None \<Rightarrow> c
      | Some rec \<Rightarrow>
          (case stopAndUnloadAsync rec of
             Some e \<Rightarrow> stopAndSend_catch e c
           | None \<Rightarrow>
               (let uri = getURI rec;
                    c1 = dispatch PRESS_UP (c\<lparr>recordingRef := None\<rparr>)
                in case uri of
                     None \<Rightarrow> stopAndSend_catch (ErrorObj ''No recording URI'') c1
                   | Some u \<Rightarrow>
                       if u = [] then stopAndSend_catch (ErrorObj ''No recording URI'') c1
                       else
                         (let req = upload_request env c1 u;
                              c2 = dispatch UPLOAD_START (c1\<lparr>errorMsg := None\<rparr>);
                              c3 = c2\<lparr>sent := sent c2 @ [req]\<rparr>
                          in receive env (fetch env req) c3))))"

text \<open>The watcher registered on the sound: \<open>PLAY_END\<close> when playback has just finished.\<close>

definition onPlaybackStatusUpdate :: "bool \<Rightarrow> Home \<Rightarrow> Home" where
  "onPlaybackStatusUpdate didJustFinish c = (if didJustFinish then dispatch PLAY_END c else c)"

text \<open>
  The two handlers of the talk button: a press starts a recording only in \<open>Idle\<close>, a
  release sends only in \<open>Listening\<close>.
\<close>

definition onPressIn :: "Recording \<Rightarrow> Home \<Rightarrow> Home" where
  "onPressIn rec c = (if state c = Idle then startRecording rec c else c)"

definition onPressOut :: "SendEnv \<Rightarrow> Home \<Rightarrow> Home" where
  "onPressOut env c = (if state c = Listening then stopAndSend env c else c)"

text \<open>
  \<open>replayAudio\<close>, given what stopping and replaying the sound answer (\<open>None\<close> when both
  resolve), and the replay button, which calls it only when replay is enabled.
\<close>

definition replayAudio :: "thrown option \<Rightarrow> Home \<Rightarrow> Home" where
  "replayAudio outcome c =
     (case soundRef c of
        None \<Rightarrow> c
      | Some sound \<Rightarrow>
          (case outcome of
             None \<Rightarrow> c
           | Some e \<Rightarrow>
               c\<lparr>errorMsg :=
                    Some (case message_of e of Some m \<Rightarrow> m | None \<Rightarrow> ''Replay error'')\<rparr>))"

definition onReplayPress :: "thrown option \<Rightarrow> Home \<Rightarrow> Home" where
  "onReplayPress outcome c = (if \<not> isReplayDisabled c then replayAudio outcome c else c)"

text \<open>
  What can happen to the component, each with what the outside answers: a press of the
  talk button, its release, a playback status update, a press of the replay button.
  \<open>run\<close> lets a list of these happen in order. The histories of a session are the
  histories of \<open>run acts initial_Home\<close>.
\<close>

datatype Action =
  PressIn Recording | PressOut SendEnv | PlaybackStatus bool | ReplayPress "thrown option"

fun step :: "Action \<Rightarrow> Home \<Rightarrow> Home" where
  "step (PressIn rec) c = onPressIn rec c"
| "step (PressOut env) c = onPressOut env c"
| "step (PlaybackStatus didJustFinish) c = onPlaybackStatusUpdate didJustFinish c"
| "step (ReplayPress outcome) c = onReplayPress outcome c"

definition run :: "Action list \<Rightarrow> Home \<Rightarrow> Home" where
  "run acts c = fold step acts c"

text \<open>
  For stating what a turn does: the body of the response when the response passed the
  three checks of \<open>stopAndSend\<close> (\<open>fetch\<close> resolved, \<open>resp.ok\<close>, a nonempty
  \<open>audioBase64\<close> in the body that \<open>json()\<close> resolved to), and \<open>None\<close> otherwise.
\<close>

definition successful_reply :: "FetchResult \<Rightarrow> TurnReply option" where
  "successful_reply res =
     (case res of
        Rejects e \<Rightarrow> None
      | Responds resp \<Rightarrow>
          if ok resp then
            (case json_body resp of
               Inl e \<Rightarrow> None
             | Inr reply \<Rightarrow>
                 (case audioBase64 reply of
                    None \<Rightarrow> None
                  | Some audio \<Rightarrow> if audio = [] then None else Some reply))
          else None)"

text \<open>
  The successful reply of the turn that \<open>stopAndSend\<close> runs from \<open>c\<close>, if the turn gets
  one: there is a recorder, it stops, it has a nonempty URI, and the response to the
  request built from it passes the checks.
\<close>

definition turn_reply :: "SendEnv \<Rightarrow> Home \<Rightarrow> TurnReply option" where
  "turn_reply env c =
     (case recordingRef c of
        None \<Rightarrow> None
      | Some rec \<Rightarrow>
          (case stopAndUnloadAsync rec of
             Some e \<Rightarrow> None
           | None \<Rightarrow>
               (case getURI rec of
                  None \<Rightarrow> None
                | Some u \<Rightarrow>
                    if u = [] then None
                    else successful_reply (fetch env (upload_request env c u)))))"

section \<open>The backend: pages/api/turn.ts\<close>

text \<open>
  Text outside ASCII is written as its UTF-8 bytes. The prompt is a template literal
  that starts and ends with a line break.
\<close>

definition SYSTEM_PROMPT :: string where
  "SYSTEM_PROMPT =
     [CHR 0x0A] @
     ''You are a warm Spanish conversation partner and coach.'' @ [CHR 0x0A] @
     ''Always reply in Spanish. Keep responses to 1'' @ [CHR 0xE2, CHR 0x80, CHR 0x93] @
     ''4 sentences.'' @ [CHR 0x0A] @
     ''When there'' @ [CHR 0xE2, CHR 0x80, CHR 0x99] @
     ''s a clear mistake, first write '' @ [CHR 0xE2, CHR 0x80, CHR 0x9C] @
     ''Correcci'' @ [CHR 0xC3, CHR 0xB3] @ ''n:'' @ [CHR 0xE2, CHR 0x80, CHR 0x9D] @
     '' with a short fix,'' @ [CHR 0x0A] @
     ''then give a natural reply. Ask a brief follow-up question each turn.'' @ [CHR 0x0A] @
     ''Use Latin American Spanish consistently. Use informal '' @ [CHR 0x22] @
     ''t'' @ [CHR 0xC3, CHR 0xBA, CHR 0x22] @ '' form.'' @ [CHR 0x0A] @
     ''Use simple vocabulary and grammar suitable for a beginner/intermediate learner.'' @
     [CHR 0x0A]"

text \<open>The reply used when the chat completion carries no content.\<close>

definition FALLBACK_REPLY :: string where
  "FALLBACK_REPLY = [CHR 0xC2, CHR 0xBF] @ ''Puedes repetir, por favor?''"

type_synonym Msg = ChatMsg

text \<open>A form field as formidable delivers it: missing, one string, or several.\<close>

datatype field = Undefined | Single string | Several "string list"

fun fieldToString :: "field \<Rightarrow> string option" where
  "fieldToString (Single f) = Some f"
| "fieldToString (Several (f0 # fs)) = Some f0"
| "fieldToString f = None"

text \<open>
  What the filter of \<open>parseForm\<close> asks of an element \<open>m\<close>: \<open>!m\<close>, \<open>typeof m\<close>, and
  the properties \<open>role\<close> and \<open>content\<close>. \<open>typeof null\<close> and \<open>typeof\<close> of an array are
  \<open>"object"\<close>. \<open>property\<close> is used with the names \<open>role\<close> and \<open>content\<close> only, which an
  array or \<open>null\<close> does not have; \<open>None\<close> is \<open>undefined\<close>.
\<close>

fun truthy :: "json \<Rightarrow> bool" where
  "truthy JNull = False"
| "truthy (JBool b) = b"
| "truthy (JNum n) = (n \<noteq> 0)"
| "truthy (JStr s) = (s \<noteq> [])"
| "truthy (JArr xs) = True"
| "truthy (JObj kvs) = True"

fun typeof_object :: "json \<Rightarrow> bool" where
  "typeof_object JNull = True"
| "typeof_object (JArr xs) = True"
| "typeof_object (JObj kvs) = True"
| "typeof_object j = False"

fun property :: "json \<Rightarrow> string \<Rightarrow> json option" where
  "property (JObj kvs) k = map_of kvs k"
| "property j k = None"

fun typeof_string :: "json option \<Rightarrow> bool" where
  "typeof_string (Some (JStr s)) = True"
| "typeof_string j = False"

definition is_Msg :: "json \<Rightarrow> bool" where
  "is_Msg m =
     (if \<not> truthy m then False
      else if \<not> typeof_object m then False
      else (property m ''role'' = Some (JStr ''user'') \<or>
            property m ''role'' = Some (JStr ''assistant'')) \<and>
           typeof_string (property m ''content''))"

text \<open>
  An element that passed the filter, read as the \<open>Msg\<close> the type guard says it is: the
  code reads its \<open>role\<close> and its \<open>content\<close> and nothing else.
\<close>

definition as_Msg :: "json \<Rightarrow> Msg" where
  "as_Msg m =
     \<lparr>role = (if property m ''role'' = Some (JStr ''user'') then User else Assistant),
      content = (case property m ''content'' of Some (JStr s) \<Rightarrow> s | _ \<Rightarrow> [])\<rparr>"

text \<open>
  The history part of \<open>parseForm\<close>. \<open>JSON.parse\<close> is a parameter: \<open>None\<close> when it
  throws. An empty \<open>raw\<close> is falsy and is not parsed.
\<close>

definition parse_history :: "(string \<Rightarrow> json option) \<Rightarrow> field \<Rightarrow> Msg list" where
  "parse_history JSON_parse f =
     (let history0 =
            (case fieldToString f of
               None \<Rightarrow> []
             | Some raw \<Rightarrow>
                 if raw = [] then []
                 else (case JSON_parse raw of
                         None \<Rightarrow> []
                       | Some parsed \<Rightarrow>
                           (case parsed of
                              JArr ms \<Rightarrow> map as_Msg (filter is_Msg ms)
                            | _ \<Rightarrow> [])))
      in if length history0 > 12 then slice (- 12) history0 else history0)"

text \<open>An uploaded file, and what \<open>form.parse\<close> hands to its callback.\<close>

record File =
  filepath :: "string option"
  originalFilename :: "string option"

datatype FormParse =
  FormError thrown
| FormParsed "(string \<times> field) list" "(string \<times> File) list"

definition parseForm ::
  "(string \<Rightarrow> json option) \<Rightarrow> FormParse \<Rightarrow> thrown + (File \<times> Msg list)" where
  "parseForm JSON_parse fp =
     (case fp of
        FormError err \<Rightarrow> Inl err
      | FormParsed form_fields form_files \<Rightarrow>
          (let picked = (case map_of form_files ''audio'' of
                           Some f \<Rightarrow> Some f
                         | None \<Rightarrow>
                             (case form_files of [] \<Rightarrow> None | kf # rest \<Rightarrow> Some (snd kf)))
           in case picked of
                None \<Rightarrow> Inl (ErrorObj ''No audio file uploaded'')
              | Some file \<Rightarrow>
                  (case filepath file of
                     None \<Rightarrow> Inl (ErrorObj ''No audio file uploaded'')
                   | Some path \<Rightarrow>
                       if path = [] then Inl (ErrorObj ''No audio file uploaded'')
                       else Inr (file,
                              parse_history JSON_parse
                                (case map_of form_fields ''history'' of
                                   None \<Rightarrow> Undefined
                                 | Some f \<Rightarrow> f)))))"

text \<open>The three requests of the handler and what the chat completion gives back.\<close>

record TranscriptionRequest =
  stt_path :: string
  stt_name :: string
  stt_model :: string

datatype ChatRole = SystemRole | MsgRole Role

record ChatRequest =
  chat_model :: string
  messages :: "(ChatRole \<times> string) list"
  temperature :: string
  max_tokens :: nat

record SpeechRequest =
  tts_model :: string
  voice :: string
  input :: string

text \<open>
  A completion is read through \<open>chat.choices[0]?.message?.content\<close> only: it is given
  as the list of its choices, each with its content, \<open>None\<close> when the message or the
  content is missing or \<open>null\<close>.
\<close>

type_synonym ChatCompletion = "string option list"

text \<open>
  The collaborators of the handler: \<open>JSON.parse\<close>, the three calls of the OpenAI client
  (the transcription answers its optional \<open>text\<close>, the speech call answers the bytes of
  the audio), and the base64 encoding of a buffer.
\<close>

record Services =
  JSON_parse :: "string \<Rightarrow> json option"
  transcriptions_create :: "TranscriptionRequest \<Rightarrow> thrown + string option"
  completions_create :: "ChatRequest \<Rightarrow> thrown + ChatCompletion"
  speech_create :: "SpeechRequest \<Rightarrow> thrown + string"
  base64 :: "string \<Rightarrow> string"

record ApiRequest =
  req_method :: "string option"
  req_form :: FormParse

record ApiResponse =
  res_status :: nat
  res_headers :: "(string \<times> string) list"
  res_body :: json

text \<open>
  What the handler did outside itself, oldest first: reading the request body
  (\<open>parseForm\<close>) and the calls of the collaborators. The handler returns its response
  together with this list.
\<close>

datatype Call =
  ReadBody | Transcribe TranscriptionRequest | Chat ChatRequest | Speech SpeechRequest

text \<open>The catch block of the handler: status 500 with the message of what was thrown.\<close>

definition handler_catch :: "thrown \<Rightarrow> ApiResponse" where
  "handler_catch e =
     \<lparr>res_status = 500, res_headers = [],
      res_body = JObj [(''error'', JStr (case e of ErrorObj m \<Rightarrow> m | Other s \<Rightarrow> s))]\<rparr>"

text \<open>The try block of the handler, for a POST.\<close>

definition handler_post :: "Services \<Rightarrow> ApiRequest \<Rightarrow> ApiResponse \<times> Call list" where
  "handler_post svc req =
     (case parseForm (JSON_parse svc) (req_form req) of
        Inl e \<Rightarrow> (handler_catch e, [ReadBody])
      | Inr (file, history0) \<Rightarrow>
          (let sreq = \<lparr>stt_path = (case filepath file of Some path \<Rightarrow> path | None \<Rightarrow> []),
                       stt_name = (case originalFilename file of
                                     None \<Rightarrow> ''audio.m4a''
                                   | Some name \<Rightarrow> if name = [] then ''audio.m4a'' else name),
                       stt_model = ''gpt-4o-mini-transcribe''\<rparr>
           in case transcriptions_create svc sreq of
                Inl e \<Rightarrow> (handler_catch e, [ReadBody, Transcribe sreq])
              | Inr stt_text \<Rightarrow>
                  (let userText = (case stt_text of Some t \<Rightarrow> t | None \<Rightarrow> []);
                       creq = \<lparr>chat_model = ''gpt-4o-mini'',
                               messages =
                                 [(SystemRole, SYSTEM_PROMPT)] @
                                 map (\<lambda>m. (MsgRole (role m), content m)) history0 @
                                 [(MsgRole User, userText)],
                               temperature = ''0.7'',
                               max_tokens = 200\<rparr>
                   in case completions_create svc creq of
                        Inl e \<Rightarrow> (handler_catch e, [ReadBody, Transcribe sreq, Chat creq])
                      | Inr choices \<Rightarrow>
                          (let reply = (case (case choices of [] \<Rightarrow> None | c0 # cs \<Rightarrow> c0) of
                                          Some text \<Rightarrow> text
                                        | None \<Rightarrow> FALLBACK_REPLY);
                               treq = \<lparr>tts_model = ''tts-1'', voice = ''alloy'', input = reply\<rparr>
                           in case speech_create svc treq of
                                Inl e \<Rightarrow>
                                  (handler_catch e,
                                   [ReadBody, Transcribe sreq, Chat creq, Speech treq])
                              | Inr audioBuf \<Rightarrow>
                                  (\<lparr>res_status = 200,
                                    res_headers =
                                      [(''Content-Type'', ''application/json''),
                                       (''Cache-Control'', ''no-store'')],
                                    res_body =
                                      JObj [(''audioBase64'', JStr (base64 svc audioBuf)),
                                            (''transcript'', JStr userText),
                                            (''replyText'', JStr reply)]\<rparr>,
                                   [ReadBody, Transcribe sreq, Chat creq, Speech treq])))))"

text \<open>\<open>handler\<close>: the method is tested before anything else is touched.\<close>

definition handler :: "Services \<Rightarrow> ApiRequest \<Rightarrow> ApiResponse \<times> Call list" where
  "handler svc req =
     (if req_method req = Some ''GET'' then
        (\<lparr>res_status = 200, res_headers = [],
          res_body = JObj [(''ok'', JBool True), (''route'', JStr ''turn'')]\<rparr>, [])
      else if req_method req \<noteq> Some ''POST'' then
        (\<lparr>res_status = 405, res_headers = [(''Allow'', ''POST'')],
          res_body = JObj [(''error'', JStr ''Method Not Allowed'')]\<rparr>, [])
      else handler_post svc req)"

section \<open>A writer and a reader of JSON text\<close>

text \<open>
  \<open>JSON.stringify\<close> and \<open>JSON.parse\<close> belong to the language, not to the repository: the
  functions above take them as parameters. This section gives a concrete pair for the
  round trip of a history and for the examples. \<open>ref_stringify\<close> writes a value the way
  \<open>JSON.stringify\<close> does (no white space; quotes, backslashes and control characters
  escaped). \<open>ref_parse\<close> reads JSON text without fractions, exponents and \<open>\u\<close> escapes
  above \<open>\u007f\<close>, and answers \<open>None\<close> for text it does not read; the text written for a
  history has none of these. \<open>read_value\<close>, \<open>read_elems\<close> and \<open>read_members\<close> take fuel
  first, one unit per nesting level and per element; \<open>ref_parse\<close> gives them more than
  the length of the text.
\<close>

definition hex_digit :: "nat \<Rightarrow> char" where
  "hex_digit n = (if n < 10 then char_of (48 + n) else char_of (87 + n))"

definition escape :: "char \<Rightarrow> string" where
  "escape ch =
     (if ch = CHR 0x22 then [CHR 0x5C, CHR 0x22]
      else if ch = CHR 0x5C then [CHR 0x5C, CHR 0x5C]
      else if ch = CHR 0x08 then [CHR 0x5C, CHR ''b'']
      else if ch = CHR 0x0C then [CHR 0x5C, CHR ''f'']
      else if ch = CHR 0x0A then [CHR 0x5C, CHR ''n'']
      else if ch = CHR 0x0D then [CHR 0x5C, CHR ''r'']
      else if ch = CHR 0x09 then [CHR 0x5C, CHR ''t'']
      else if (of_char ch :: nat) < 32 then
        [CHR 0x5C, CHR ''u'', CHR ''0'', CHR ''0'',
         hex_digit (of_char ch div 16), hex_digit (of_char ch mod 16)]
      else [ch])"

definition quoted :: "string \<Rightarrow> string" where
  "quoted s = [CHR 0x22] @ concat (map escape s) @ [CHR 0x22]"

fun commas :: "string list \<Rightarrow> string" where
  "commas [] = []"
| "commas [x] = x"
| "commas (x # y # ys) = x @ '','' @ commas (y # ys)"

fun ref_stringify :: "json \<Rightarrow> string" where
  "ref_stringify JNull = ''null''"
| "ref_stringify (JBool b) = (if b then ''true'' else ''false'')"
| "ref_stringify (JNum n) = (if n < 0 then ''-'' @ decimal (nat (- n)) else decimal (nat n))"
| "ref_stringify (JStr s) = quoted s"
| "ref_stringify (JArr xs) = ''['' @ commas (map ref_stringify xs) @ '']''"
| "ref_stringify (JObj kvs) =
     ''{'' @ commas (map (\<lambda>kv. quoted (fst kv) @ '':'' @ ref_stringify (snd kv)) kvs) @ ''}''"

definition is_ws :: "char \<Rightarrow> bool" where
  "is_ws ch = (ch = CHR 0x20 \<or> ch = CHR 0x09 \<or> ch = CHR 0x0A \<or> ch = CHR 0x0D)"

definition skip_ws :: "string \<Rightarrow> string" where
  "skip_ws s = dropWhile is_ws s"

definition is_digit :: "char \<Rightarrow> bool" where
  "is_digit ch = (48 \<le> (of_char ch :: nat) \<and> (of_char ch :: nat) \<le> 57)"

definition unescape :: "char \<Rightarrow> char option" where
  "unescape e =
     (if e = CHR 0x22 then Some (CHR 0x22)
      else if e = CHR 0x5C then Some (CHR 0x5C)
      else if e = CHR ''/'' then Some (CHR ''/'')
      else if e = CHR ''b'' then Some (CHR 0x08)
      else if e = CHR ''f'' then Some (CHR 0x0C)
      else if e = CHR ''n'' then Some (CHR 0x0A)
      else if e = CHR ''r'' then Some (CHR 0x0D)
      else if e = CHR ''t'' then Some (CHR 0x09)
      else None)"

definition hex_value :: "char \<Rightarrow> nat option" where
  "hex_value ch =
     (let n = (of_char ch :: nat) in
      if 48 \<le> n \<and> n \<le> 57 then Some (n - 48)
      else if 97 \<le> n \<and> n \<le> 102 then Some (n - 87)
      else if 65 \<le> n \<and> n \<le> 70 then Some (n - 55)
      else None)"

definition push :: "'a \<Rightarrow> ('a list \<times> string) option \<Rightarrow> ('a list \<times> string) option" where
  "push x r = (case r of None \<Rightarrow> None | Some (xs, rest) \<Rightarrow> Some (x # xs, rest))"

fun read_string :: "string \<Rightarrow> (string \<times> string) option" where
  "read_string [] = None"
| "read_string (ch # cs) =
     (if ch = CHR 0x22 then Some ([], cs)
      else if ch = CHR 0x5C then
        (case cs of
           [] \<Rightarrow> None
         | e # cs1 \<Rightarrow>
             if e = CHR ''u'' then
               (case cs1 of
                  a # b # c # d # cs2 \<Rightarrow>
                    (if a = CHR ''0'' \<and> b = CHR ''0'' then
                       (case (hex_value c, hex_value d) of
                          (Some h, Some l) \<Rightarrow>
                            if h < 8 then push (char_of (16 * h + l)) (read_string cs2) else None
                        | _ \<Rightarrow> None)
                     else None)
                | _ \<Rightarrow> None)
             else
               (case unescape e of
                  None \<Rightarrow> None
                | Some d \<Rightarrow> push d (read_string cs1)))
      else if (of_char ch :: nat) < 32 then None
      else push ch (read_string cs))"

text \<open>
  The object a list of members denotes: \<open>JSON.parse\<close> assigns the members from left to
  right, so a repeated key keeps its first place and takes its last value.
\<close>

fun assign :: "string \<Rightarrow> json \<Rightarrow> (string \<times> json) list \<Rightarrow> (string \<times> json) list" where
  "assign k v [] = [(k, v)]"
| "assign k v (p # ps) = (if fst p = k then (k, v) # ps else p # assign k v ps)"

definition object_of :: "(string \<times> json) list \<Rightarrow> (string \<times> json) list" where
  "object_of members = foldl (\<lambda>obj kv. assign (fst kv) (snd kv) obj) [] members"

definition read_number :: "string \<Rightarrow> (json \<times> string) option" where
  "read_number s =
     (let neg = (case s of [] \<Rightarrow> False | ch # cs \<Rightarrow> ch = CHR ''-'');
          body = (if neg then tl s else s);
          ds = takeWhile is_digit body;
          rest = dropWhile is_digit body;
          n = foldl (\<lambda>acc d. 10 * acc + (int (of_char d) - 48)) 0 ds
      in if ds = [] then None
         else if hd ds = CHR ''0'' \<and> length ds > 1 then None
         else if rest \<noteq> [] \<and> (hd rest = CHR ''.'' \<or> hd rest = CHR ''e'' \<or> hd rest = CHR ''E'') then None
         else Some (JNum (if neg then - n else n), rest))"

fun read_value :: "nat \<Rightarrow> string \<Rightarrow> (json \<times> string) option"
  and read_elems :: "nat \<Rightarrow> string \<Rightarrow> (json list \<times> string) option"
  and read_members :: "nat \<Rightarrow> string \<Rightarrow> ((string \<times> json) list \<times> string) option"
where
  "read_value 0 s = None"
| "read_value (Suc n) s =
     (case skip_ws s of
        [] \<Rightarrow> None
      | ch # cs \<Rightarrow>
          if ch = CHR ''n'' then (if take 3 cs = ''ull'' then Some (JNull, drop 3 cs) else None)
          else if ch = CHR ''t'' then
            (if take 3 cs = ''rue'' then Some (JBool True, drop 3 cs) else None)
          else if ch = CHR ''f'' then
            (if take 4 cs = ''alse'' then Some (JBool False, drop 4 cs) else None)
          else if ch = CHR 0x22 then
            (case read_string cs of None \<Rightarrow> None | Some (str, rest) \<Rightarrow> Some (JStr str, rest))
          else if ch = CHR ''['' then
            (if take 1 (skip_ws cs) = '']'' then Some (JArr [], drop 1 (skip_ws cs))
             else (case read_elems n cs of
                     None \<Rightarrow> None
                   | Some (xs, rest) \<Rightarrow> Some (JArr xs, rest)))
          else if ch = CHR ''{'' then
            (if take 1 (skip_ws cs) = ''}'' then Some (JObj [], drop 1 (skip_ws cs))
             else (case read_members n cs of
                     None \<Rightarrow> None
                   | Some (kvs, rest) \<Rightarrow> Some (JObj (object_of kvs), rest)))
          else read_number (ch # cs))"
| "read_elems 0 s = None"
| "read_elems (Suc n) s =
     (case read_value n s of
        None \<Rightarrow> None
      | Some (x, rest) \<Rightarrow>
          (case skip_ws rest of
             [] \<Rightarrow> None
           | ch # rest1 \<Rightarrow>
               if ch = CHR '','' then push x (read_elems n rest1)
               else if ch = CHR '']'' then Some ([x], rest1)
               else None))"
| "read_members 0 s = None"
| "read_members (Suc n) s =
     (case skip_ws s of
        [] \<Rightarrow> None
      | q # cs \<Rightarrow>
          if q \<noteq> CHR 0x22 then None
          else
            (case read_string cs of
               None \<Rightarrow> None
             | Some (k, rest) \<Rightarrow>
                 (case skip_ws rest of
                    [] \<Rightarrow> None
                  | colon # rest1 \<Rightarrow>
                      if colon \<noteq> CHR '':'' then None
                      else
                        (case read_value n rest1 of
                           None \<Rightarrow> None
                         | Some (v, rest2) \<Rightarrow>
                             (case skip_ws rest2 of
                                [] \<Rightarrow> None
                              | ch # rest3 \<Rightarrow>
                                  if ch = CHR '','' then push (k, v) (read_members n rest3)
                                  else if ch = CHR ''}'' then Some ([(k, v)], rest3)
                                  else None)))))"

definition ref_parse :: "string \<Rightarrow> json option" where
  "ref_parse s =
     (case read_value (Suc (length s)) s of
        None \<Rightarrow> None
      | Some (j, rest) \<Rightarrow> if skip_ws rest = [] then Some j else None)"

section \<open>Example inputs\<close>

text \<open>A history of \<open>n\<close> entries numbered from 0, the roles alternating.\<close>

definition example_history :: "nat \<Rightarrow> ChatMsg list" where
  "example_history n =
     map (\<lambda>i. \<lparr>role = (if even i then User else Assistant), content = decimal i\<rparr>) [0..<n]"

text \<open>Three recorders: one that works, one with no URI after stopping, one that cannot be prepared.\<close>

definition good_recording :: Recording where
  "good_recording =
     \<lparr>prepareToRecordAsync = None, startAsync = None, stopAndUnloadAsync = None,
      getURI = Some ''file:///tmp/rec/turn.caf''\<rparr>"

definition no_uri_recording :: Recording where
  "no_uri_recording =
     \<lparr>prepareToRecordAsync = None, startAsync = None, stopAndUnloadAsync = None,
      getURI = None\<rparr>"

definition denied_recording :: Recording where
  "denied_recording =
     \<lparr>prepareToRecordAsync = Some (ErrorObj ''Missing audio recording permissions.''),
      startAsync = None, stopAndUnloadAsync = None, getURI = None\<rparr>"

text \<open>An environment whose \<open>fetch\<close> answers \<open>res\<close> to every request and whose sounds play.\<close>

definition reply_env :: "FetchResult \<Rightarrow> SendEnv" where
  "reply_env res =
     \<lparr>Platform_OS = ''ios'', JSON_stringify = ref_stringify, fetch = (\<lambda>req. res),
      createAsync = (\<lambda>uri. Inr \<lparr>source_uri = uri, playAsync = None\<rparr>)\<rparr>"

definition ok_response :: "TurnReply \<Rightarrow> FetchResult" where
  "ok_response reply =
     Responds \<lparr>ok = True, status = 200, text_body = Inr [], json_body = Inr reply\<rparr>"

text \<open>
  The reply of the backend of this file, and the reply of the earlier backend kept in
  the repository, which answers the audio alone.
\<close>

definition full_reply :: TurnReply where
  "full_reply =
     \<lparr>audioBase64 = Some ''bXAz'', transcript = Some ''Hola'',
      replyText = Some ''Hola! Como estas?''\<rparr>"

definition audio_only_reply :: TurnReply where
  "audio_only_reply = \<lparr>audioBase64 = Some ''bXAz'', transcript = None, replyText = None\<rparr>"

text \<open>The component after a press that started \<open>rec\<close>, from its initial state.\<close>

definition listening_Home :: "Recording \<Rightarrow> Home" where
  "listening_Home rec = onPressIn rec initial_Home"

text \<open>
  Services for the backend: the transcription hears \<open>Hola\<close>, the chat model answers a
  choice with no content, the speech call answers three bytes.
\<close>

definition example_services :: Services where
  "example_services =
     \<lparr>JSON_parse = ref_parse,
      transcriptions_create = (\<lambda>r. Inr (Some ''Hola'')),
      completions_create = (\<lambda>r. Inr [None]),
      speech_create = (\<lambda>r. Inr ''mp3''),
      base64 = (\<lambda>bytes. ''bXAz'')\<rparr>"

definition example_post :: "string \<Rightarrow> ApiRequest" where
  "example_post raw =
     \<lparr>req_method = Some ''POST'',
      req_form =
        FormParsed [(''history'', Several [raw])]
          [(''audio'', \<lparr>filepath = Some ''/tmp/upload_1'', originalFilename = Some ''turn.caf''\<rparr>)]\<rparr>"

text \<open>Two valid entries among six that the filter refuses.\<close>

definition mixed_entries :: "json list" where
  "mixed_entries =
     [msg_json \<lparr>role = User, content = ''Hola''\<rparr>,
      JObj [(''role'', JStr ''system''), (''content'', JStr ''x'')],
      JNull,
      JObj [(''role'', JStr ''user'')],
      JObj [(''role'', JStr ''user''), (''content'', JNum 5)],
      JArr [JStr ''user''],
      JStr ''user'',
      msg_json \<lparr>role = Assistant, content = ''Que tal?''\<rparr>]"

text \<open>An array of 13 valid entries followed by one with a role the filter refuses.\<close>

definition thirteen_and_one :: "json list" where
  "thirteen_and_one =
     map msg_json (example_history 13) @
     [JObj [(''role'', JStr ''system''), (''content'', JStr ''x'')]]"

section \<open>Shared facts\<close>

lemma slice_last: "0 < n \<Longrightarrow> slice (- int n) xs = drop (length xs - n) xs"
  by (auto simp add: slice_def Let_def max_def nat_diff_distrib')

lemma slice_12: "slice (- 12) xs = drop (length xs - 12) xs"
  using slice_last [of 12 xs] by simp

lemma slice_6: "slice (- 6) xs = drop (length xs - 6) xs"
  using slice_last [of 6 xs] by simp

lemma appendTurn_eq:
  "appendTurn t r prev =
     drop (length prev - 10)
       (prev @ [\<lparr>role = User, content = t\<rparr>,
                \<lparr>role = Assistant, content = (case r of Some x \<Rightarrow> x | None \<Rightarrow> [])\<rparr>])"
  by (simp add: appendTurn_def Let_def slice_12)

lemma length_appendTurn: "length (appendTurn t r prev) \<le> 12"
  by (simp add: appendTurn_eq)

lemma length_appendTurns: "length h \<le> 12 \<Longrightarrow> length (appendTurns h turns) \<le> 12"
  by (induction h turns rule: appendTurns.induct) (simp_all add: length_appendTurn)

lemma dispatch_fields [simp]:
  "state (dispatch ev c) = reducer (state c) ev"
  "entered (dispatch ev c) = entered c @ [reducer (state c) ev]"
  "history (dispatch ev c) = history c"
  "errorMsg (dispatch ev c) = errorMsg c"
  "sent (dispatch ev c) = sent c"
  "recordingRef (dispatch ev c) = recordingRef c"
  "soundRef (dispatch ev c) = soundRef c"
  "isReplayDisabled (dispatch ev c) = isReplayDisabled c"
  by (simp_all add: dispatch_def Let_def)

lemma stopAndSend_catch_fields [simp]:
  "state (stopAndSend_catch e c) = reducer (state c) UPLOAD_ERR"
  "entered (stopAndSend_catch e c) = entered c @ [reducer (state c) UPLOAD_ERR]"
  "history (stopAndSend_catch e c) = history c"
  "errorMsg (stopAndSend_catch e c) =
     Some (case message_of e of Some m \<Rightarrow> m | None \<Rightarrow> ''Upload/play error'')"
  "sent (stopAndSend_catch e c) = sent c"
  "recordingRef (stopAndSend_catch e c) = recordingRef c"
  by (simp_all add: stopAndSend_catch_def)

lemma startRecording_catch_fields [simp]:
  "state (startRecording_catch e c) = reducer (state c) CANCEL"
  "entered (startRecording_catch e c) = entered c @ [reducer (state c) CANCEL]"
  "history (startRecording_catch e c) = history c"
  "errorMsg (startRecording_catch e c) =
     Some (case message_of e of Some m \<Rightarrow> m | None \<Rightarrow> ''Failed to start recording'')"
  "sent (startRecording_catch e c) = sent c"
  "recordingRef (startRecording_catch e c) = recordingRef c"
  by (simp_all add: startRecording_catch_def)

lemma upload_request_unchanged [simp]:
  "upload_request env (dispatch ev c) u = upload_request env c u"
  "upload_request env (c\<lparr>recordingRef := r\<rparr>) u = upload_request env c u"
  by (simp_all add: upload_request_def)

lemma cancel_after_press_down: "reducer (reducer s PRESS_DOWN) CANCEL \<noteq> Listening"
  by (cases s) simp_all

text \<open>
  The responses that are not successful: \<open>fetch\<close> rejected, the status is not ok,
  \<open>json()\<close> rejected, or the body has no audio (missing or empty).
\<close>

lemma successful_reply_None_iff:
  "successful_reply res = None \<longleftrightarrow>
     (\<exists>e. res = Rejects e) \<or>
     (\<exists>resp. res = Responds resp \<and>
        (\<not> ok resp \<or> (\<exists>e. json_body resp = Inl e) \<or>
         (\<exists>reply. json_body resp = Inr reply \<and>
            (audioBase64 reply = None \<or> audioBase64 reply = Some []))))"
  by (auto simp add: successful_reply_def
        split: FetchResult.splits sum.splits option.splits if_splits)

lemma history_play_reply:
  "history (play_reply env reply audio c) =
     (case transcript reply of
        Some t \<Rightarrow> appendTurn t (replyText reply) (history c)
      | None \<Rightarrow> history c)"
  by (simp add: play_reply_def Let_def split: option.splits sum.splits)

lemma history_receive:
  "history (receive env res c) =
     (case successful_reply res of
        Some reply \<Rightarrow>
          (case transcript reply of
             Some t \<Rightarrow> appendTurn t (replyText reply) (history c)
           | None \<Rightarrow> history c)
      | None \<Rightarrow> history c)"
  by (simp add: receive_def successful_reply_def history_play_reply
           split: FetchResult.splits sum.splits option.splits)

lemma sent_receive: "sent (receive env res c) = sent c"
  by (simp add: receive_def play_reply_def Let_def
           split: FetchResult.splits sum.splits option.splits)

lemma failed_receive:
  assumes "successful_reply res = None"
  shows "state (receive env res c) = reducer (state c) UPLOAD_ERR"
    and "errorMsg (receive env res c) \<noteq> None"
    and "entered (receive env res c) = entered c @ [reducer (state c) UPLOAD_ERR]"
  using assms
  by (auto simp add: receive_def successful_reply_def
           split: FetchResult.splits sum.splits option.splits if_splits)

text \<open>With a recorder that stops and has a URI, \<open>stopAndSend\<close> gets as far as \<open>fetch\<close>.\<close>

lemma stopAndSend_sends:
  assumes "recordingRef c = Some rec" and "stopAndUnloadAsync rec = None"
    and "getURI rec = Some u" and "u \<noteq> []"
  shows "stopAndSend env c =
     receive env (fetch env (upload_request env c u))
       ((dispatch UPLOAD_START
           ((dispatch PRESS_UP (c\<lparr>recordingRef := None\<rparr>))\<lparr>errorMsg := None\<rparr>))
          \<lparr>sent := sent c @ [upload_request env c u]\<rparr>)"
  using assms by (simp add: stopAndSend_def Let_def)

text \<open>The component after a press that started a recorder, field by field.\<close>

lemma listening_Home_fields:
  "prepareToRecordAsync rec = None \<Longrightarrow> startAsync rec = None \<Longrightarrow>
     listening_Home rec =
       \<lparr>state = Listening, errorMsg = None, history = [], isReplayDisabled = True,
        recordingRef = Some rec, soundRef = None, entered = [Listening], sent = []\<rparr>"
  by (simp add: listening_Home_def onPressIn_def initial_Home_def startRecording_def
        dispatch_def Let_def)

lemma is_Msg_iff:
  "is_Msg m \<longleftrightarrow>
     (\<exists>kvs r s. m = JObj kvs \<and> map_of kvs ''role'' = Some (JStr r) \<and>
        (r = ''user'' \<or> r = ''assistant'') \<and> map_of kvs ''content'' = Some (JStr s))"
proof (cases m)
  case (JObj kvs)
  show ?thesis
  proof (cases "map_of kvs ''content''")
    case None
    with JObj show ?thesis by (simp add: is_Msg_def)
  next
    case (Some v)
    with JObj show ?thesis by (cases v) (auto simp add: is_Msg_def)
  qed
qed (simp_all add: is_Msg_def)

lemma is_Msg_msg_json [simp]: "is_Msg (msg_json m)"
  by (cases "role m") (simp_all add: is_Msg_def msg_json_def)

lemma as_Msg_msg_json [simp]: "as_Msg (msg_json m) = m"
  by (cases "role m") (simp_all add: as_Msg_def msg_json_def)

lemma read_back: "map as_Msg (filter is_Msg (map msg_json h)) = h"
  by (induction h) simp_all

lemma parse_history_bounded: "length (parse_history P f) \<le> 12"
  by (simp add: parse_history_def Let_def slice_12)

lemma parse_history_array:
  assumes "fieldToString f = Some raw" and "raw \<noteq> []" and "P raw = Some (JArr ms)"
  shows "parse_history P f =
           drop (length (filter is_Msg ms) - 12) (map as_Msg (filter is_Msg ms))"
  using assms by (simp add: parse_history_def Let_def slice_12)

lemma parseForm_history:
  assumes "parseForm P fp = Inr (file, hist)"
  shows "\<exists>flds fls. fp = FormParsed flds fls \<and>
           hist = parse_history P
                    (case map_of flds ''history'' of None \<Rightarrow> Undefined | Some f \<Rightarrow> f)"
  using assms
  by (auto simp add: parseForm_def Let_def
        split: FormParse.splits option.splits list.splits if_splits)

text \<open>The reader reads back what the writer wrote for a history.\<close>

lemma hex_value_hex_digit: "n < 16 \<Longrightarrow> hex_value (hex_digit n) = Some n"
  by (auto simp add: hex_value_def hex_digit_def Let_def)

lemma read_string_escape:
  assumes "read_string t = Some (s, rest)"
  shows "read_string (escape ch @ t) = Some (ch # s, rest)"
proof -
  consider (special) "ch \<in> {CHR 0x22, CHR 0x5C, CHR 0x08, CHR 0x0C, CHR 0x0A, CHR 0x0D, CHR 0x09}"
    | (control) "ch \<notin> {CHR 0x22, CHR 0x5C, CHR 0x08, CHR 0x0C, CHR 0x0A, CHR 0x0D, CHR 0x09}"
        "(of_char ch :: nat) < 32"
    | (plain) "ch \<notin> {CHR 0x22, CHR 0x5C, CHR 0x08, CHR 0x0C, CHR 0x0A, CHR 0x0D, CHR 0x09}"
        "\<not> (of_char ch :: nat) < 32"
    by blast
  then show ?thesis
  proof cases
    case special
    then show ?thesis
      using assms by (auto simp add: escape_def unescape_def push_def)
  next
    case control
    let ?n = "of_char ch :: nat"
    have hi: "hex_value (hex_digit (?n div 16)) = Some (?n div 16)"
      and lo: "hex_value (hex_digit (?n mod 16)) = Some (?n mod 16)"
      using control(2) by (simp_all add: hex_value_hex_digit)
    have small: "?n div 16 < 8"
      using control(2) by simp
    have same: "char_of (16 * (?n div 16) + ?n mod 16) = ch"
      by simp
    have esc: "escape ch = [CHR 0x5C, CHR ''u'', CHR ''0'', CHR ''0'',
         hex_digit (?n div 16), hex_digit (?n mod 16)]"
      using control by (simp add: escape_def)
    show ?thesis
      unfolding esc using assms hi lo small same by (simp add: push_def)
  next
    case plain
    then have esc: "escape ch = [ch]"
      by (simp add: escape_def)
    show ?thesis
      unfolding esc using assms plain by (simp add: push_def)
  qed
qed

lemma read_string_body:
  "read_string (concat (map escape s) @ CHR 0x22 # rest) = Some (s, rest)"
  by (induction s) (simp_all add: read_string_escape)

lemma read_string_quoted:
  "quoted s @ rest = CHR 0x22 # t \<Longrightarrow> read_string t = Some (s, rest)"
  by (simp add: quoted_def read_string_body [symmetric])

lemma skip_ws_plain [simp]:
  "skip_ws (CHR 0x22 # cs) = CHR 0x22 # cs"
  "skip_ws (CHR ''{'' # cs) = CHR ''{'' # cs"
  "skip_ws (CHR ''}'' # cs) = CHR ''}'' # cs"
  "skip_ws (CHR ''['' # cs) = CHR ''['' # cs"
  "skip_ws (CHR '']'' # cs) = CHR '']'' # cs"
  "skip_ws (CHR '':'' # cs) = CHR '':'' # cs"
  "skip_ws (CHR '','' # cs) = CHR '','' # cs"
  "skip_ws [] = []"
  by (simp_all add: skip_ws_def is_ws_def)

lemma quoted_Cons: "quoted k @ after = CHR 0x22 # (concat (map escape k) @ CHR 0x22 # after)"
  by (simp add: quoted_def)

lemma read_value_string:
  "read_value (Suc n) (quoted s @ rest) = Some (JStr s, rest)"
  unfolding quoted_Cons by (simp add: read_string_body)

lemma read_members_last:
  assumes "read_value n vtext = Some (v, CHR ''}'' # rest)"
  shows "read_members (Suc n) (quoted k @ CHR '':'' # vtext) = Some ([(k, v)], rest)"
  unfolding quoted_Cons using assms by (simp add: read_string_body)

lemma read_members_more:
  assumes "read_value n vtext = Some (v, CHR '','' # after)"
    and "read_members n after = Some (kvs, rest)"
  shows "read_members (Suc n) (quoted k @ CHR '':'' # vtext) = Some ((k, v) # kvs, rest)"
  unfolding quoted_Cons using assms by (simp add: read_string_body push_def)

lemma read_value_object:
  assumes "read_members n (quoted k @ after) = Some (kvs, rest)"
  shows "read_value (Suc n) (CHR ''{'' # quoted k @ after) = Some (JObj (object_of kvs), rest)"
proof -
  have "take 1 (skip_ws (quoted k @ after)) \<noteq> ''}''"
    unfolding quoted_Cons by simp
  then show ?thesis
    using assms by simp
qed

lemma read_elems_last:
  assumes "read_value n s = Some (x, CHR '']'' # rest)"
  shows "read_elems (Suc n) s = Some ([x], rest)"
  using assms by simp

lemma read_elems_more:
  assumes "read_value n s = Some (x, CHR '','' # after)"
    and "read_elems n after = Some (xs, rest)"
  shows "read_elems (Suc n) s = Some (x # xs, rest)"
  using assms by (simp add: push_def)

lemma read_value_array:
  assumes "read_elems n (CHR ''{'' # cs) = Some (xs, rest)"
  shows "read_value (Suc n) (CHR ''['' # CHR ''{'' # cs) = Some (JArr xs, rest)"
  using assms by simp

lemma object_of_msg:
  "object_of [(''role'', r), (''content'', t)] = [(''role'', r), (''content'', t)]"
  by (simp add: object_of_def)

lemma stringify_msg:
  "ref_stringify (msg_json m) =
     CHR ''{'' # quoted ''role'' @ CHR '':'' # quoted (role_name (role m)) @
       CHR '','' # quoted ''content'' @ CHR '':'' # quoted (content m) @ ''}''"
  by (simp add: msg_json_def)

lemma read_value_msg:
  "read_value (Suc (Suc (Suc (Suc n)))) (ref_stringify (msg_json m) @ rest) =
     Some (msg_json m, rest)"
proof -
  have c: "read_members (Suc (Suc n))
        (quoted ''content'' @ CHR '':'' # quoted (content m) @ CHR ''}'' # rest) =
        Some ([(''content'', JStr (content m))], rest)"
    by (rule read_members_last) (rule read_value_string)
  have r: "read_members (Suc (Suc (Suc n)))
        (quoted ''role'' @ CHR '':'' # quoted (role_name (role m)) @ CHR '','' #
           quoted ''content'' @ CHR '':'' # quoted (content m) @ CHR ''}'' # rest) =
        Some ([(''role'', JStr (role_name (role m))), (''content'', JStr (content m))], rest)"
    by (rule read_members_more [OF read_value_string c])
  have "read_value (Suc (Suc (Suc (Suc n))))
        (CHR ''{'' # quoted ''role'' @ CHR '':'' # quoted (role_name (role m)) @ CHR '','' #
           quoted ''content'' @ CHR '':'' # quoted (content m) @ CHR ''}'' # rest) =
        Some (JObj (object_of [(''role'', JStr (role_name (role m))),
                               (''content'', JStr (content m))]), rest)"
    by (rule read_value_object [OF r])
  then show ?thesis
    unfolding stringify_msg object_of_msg by (simp add: msg_json_def)
qed

lemma read_elems_msgs:
  "ms \<noteq> [] \<Longrightarrow> length ms + 4 \<le> n \<Longrightarrow>
     read_elems n (commas (map (\<lambda>m. ref_stringify (msg_json m)) ms) @ CHR '']'' # rest) =
       Some (map msg_json ms, rest)"
proof (induction ms arbitrary: n)
  case Nil
  then show ?case by simp
next
  case (Cons m ms)
  define k where "k = n - 5"
  have n: "n = Suc (Suc (Suc (Suc (Suc k))))" and k: "length ms \<le> k"
    using Cons.prems by (simp_all add: k_def)
  show ?case
  proof (cases ms)
    case Nil
    have "read_elems (Suc (Suc (Suc (Suc (Suc k)))))
            (ref_stringify (msg_json m) @ CHR '']'' # rest) =
            Some ([msg_json m], rest)"
      by (rule read_elems_last) (rule read_value_msg)
    with Nil show ?thesis
      unfolding n by (simp del: ref_stringify.simps read_elems.simps)
  next
    case (Cons m' ms')
    have ih: "read_elems (Suc (Suc (Suc (Suc k))))
                (commas (map (\<lambda>m. ref_stringify (msg_json m)) ms) @ CHR '']'' # rest) =
              Some (map msg_json ms, rest)"
      using Cons.IH [of "Suc (Suc (Suc (Suc k)))"] Cons k by simp
    have "read_elems (Suc (Suc (Suc (Suc (Suc k)))))
            (ref_stringify (msg_json m) @ CHR '','' #
               commas (map (\<lambda>m. ref_stringify (msg_json m)) ms) @ CHR '']'' # rest) =
          Some (msg_json m # map msg_json ms, rest)"
      by (rule read_elems_more [OF read_value_msg ih])
    with Cons show ?thesis
      unfolding n by (simp del: ref_stringify.simps read_elems.simps)
  qed
qed

lemma length_commas: "\<forall>x \<in> set xs. k \<le> length x \<Longrightarrow> k * length xs \<le> length (commas xs)"
  by (induction xs rule: commas.induct) simp_all

lemma length_stringify_msg: "5 \<le> length (ref_stringify (msg_json m))"
  by (simp add: stringify_msg quoted_def)

lemma ref_round_trip:
  "ref_parse (ref_stringify (history_json h)) = Some (history_json h)"
proof (cases h)
  case Nil
  then show ?thesis
    by (simp add: ref_parse_def history_json_def)
next
  case (Cons m ms)
  define body where "body = commas (map (\<lambda>m. ref_stringify (msg_json m)) h)"
  define T where "T = ref_stringify (history_json h)"
  have shape: "T = CHR ''['' # body @ '']''"
    unfolding T_def body_def
    by (simp add: history_json_def comp_def del: ref_stringify.simps(6))
  have "5 * length h \<le> length body"
    unfolding body_def
    using length_commas [of "map (\<lambda>m. ref_stringify (msg_json m)) h" 5]
    by (simp add: length_stringify_msg del: ref_stringify.simps)
  then have fuel: "length h + 4 \<le> length T"
    unfolding shape using Cons by simp
  obtain cs where brace: "body @ '']'' = CHR ''{'' # cs"
    unfolding body_def using Cons
    by (cases ms; simp add: stringify_msg del: ref_stringify.simps)
  have "read_elems (length T) (body @ CHR '']'' # []) = Some (map msg_json h, [])"
    unfolding body_def using Cons fuel by (intro read_elems_msgs) simp_all
  then have elems: "read_elems (length T) (CHR ''{'' # cs) = Some (map msg_json h, [])"
    unfolding brace .
  have "read_value (Suc (length T)) (CHR ''['' # CHR ''{'' # cs) =
          Some (JArr (map msg_json h), [])"
    using elems by (rule read_value_array)
  moreover have "T = CHR ''['' # CHR ''{'' # cs"
    unfolding shape brace ..
  ultimately have "read_value (Suc (length T)) T = Some (JArr (map msg_json h), [])"
    by (simp only:)
  then have "ref_parse T = Some (JArr (map msg_json h))"
    by (simp add: ref_parse_def del: read_value.simps)
  then show ?thesis
    unfolding T_def by (simp only: history_json_def)
qed

lemma ref_stringify_nonempty: "ref_stringify (history_json h) \<noteq> []"
  by (simp add: history_json_def)

lemma parse_history_of_field:
  assumes "fieldToString f = Some (S (history_json h))" and "S (history_json h) \<noteq> []"
    and "P (S (history_json h)) = Some (history_json h)"
  shows "parse_history P f = drop (length h - 12) h"
proof -
  have "parse_history P f =
          drop (length (filter is_Msg (map msg_json h)) - 12)
            (map as_Msg (filter is_Msg (map msg_json h)))"
    using assms by (intro parse_history_array) (simp_all add: history_json_def)
  also have "\<dots> = drop (length h - 12) h"
    using read_back [of h] by (metis length_map)
  finally show ?thesis .
qed

text \<open>No handler of the component lets the history grow past 12 entries.\<close>

lemma stopAndSend_keeps_cap:
  assumes "length (history c) \<le> 12"
  shows "length (history (stopAndSend env c)) \<le> 12"
proof (cases "\<exists>rec u. recordingRef c = Some rec \<and> stopAndUnloadAsync rec = None \<and>
                 getURI rec = Some u \<and> u \<noteq> []")
  case True
  then obtain rec u where "recordingRef c = Some rec" "stopAndUnloadAsync rec = None"
    "getURI rec = Some u" "u \<noteq> []"
    by blast
  then show ?thesis
    using assms stopAndSend_sends [of c rec u env]
    by (simp add: history_receive length_appendTurn split: option.splits)
next
  case False
  then have "history (stopAndSend env c) = history c"
    by (auto simp add: stopAndSend_def Let_def split: option.splits)
  with assms show ?thesis by simp
qed

lemma step_keeps_cap:
  assumes "length (history c) \<le> 12"
  shows "length (history (step a c)) \<le> 12"
proof (cases a)
  case (PressIn rec)
  then show ?thesis
    using assms
    by (simp add: onPressIn_def startRecording_def Let_def split: option.splits)
next
  case (PressOut env)
  then show ?thesis
    using assms by (simp add: onPressOut_def stopAndSend_keeps_cap)
next
  case (PlaybackStatus didJustFinish)
  then show ?thesis
    using assms by (simp add: onPlaybackStatusUpdate_def)
next
  case (ReplayPress outcome)
  then show ?thesis
    using assms by (simp add: onReplayPress_def replayAudio_def split: option.splits)
qed

lemma run_keeps_cap: "length (history c) \<le> 12 \<Longrightarrow> length (history (run acts c)) \<le> 12"
  unfolding run_def by (induction acts arbitrary: c) (simp_all add: step_keeps_cap)

lemma session_cap: "length (history (run acts initial_Home)) \<le> 12"
  by (rule run_keeps_cap) (simp add: initial_Home_def)

text \<open>
  What the request of a turn carries is the window of the last 6 entries, and the
  backend reads exactly these from it.
\<close>

lemma window_arrives:
  assumes "JSON_stringify env = ref_stringify"
  shows "parse_history ref_parse (Single (history_field (upload_request env c u))) =
           drop (length (history c) - 6) (history c)"
proof -
  let ?w = "slice (- 6) (history c)"
  have "history_field (upload_request env c u) = ref_stringify (history_json ?w)"
    using assms by (simp add: upload_request_def)
  moreover have "parse_history ref_parse (Single (ref_stringify (history_json ?w))) =
      drop (length ?w - 12) ?w"
    using parse_history_of_field
        [where S = ref_stringify and P = ref_parse and h = ?w
          and f = "Single (ref_stringify (history_json ?w))"]
    by (simp add: ref_round_trip ref_stringify_nonempty del: ref_stringify.simps)
  moreover have "length ?w \<le> 12" and "?w = drop (length (history c) - 6) (history c)"
    by (simp_all add: slice_6)
  ultimately show ?thesis by simp
qed

section \<open>The transition function against the table\<close>

text \<open>
  C1. \<open>reducer\<close> is a function of the state and the event alone, defined on all 35
  pairs; on each pair it returns what the table of section 4.1 gives, and the state
  itself where the table lists nothing. A \<open>PLAY_END\<close> outside \<open>Speaking\<close> changes nothing.
\<close>

theorem reducer_is_table:
  "reducer s ev = table_next s ev \<and>
   reducer s PLAY_END = (if s = Speaking then Idle else s)"
  by (cases s; cases ev; simp add: table_next_def transition_table_def)

theorem reducer_is_table_witness:
  "reducer Uploading UPLOAD_ERR = Error \<and> reducer Idle PLAY_END = Idle
   \<and> table_next Uploading UPLOAD_ERR = Error"
  using reducer_is_table [of Uploading UPLOAD_ERR] reducer_is_table [of Idle PRESS_UP]
  by (simp add: table_next_def transition_table_def)

section \<open>The history window\<close>

text \<open>
  C3. The history never holds more than 12 entries: one append leaves at most 12
  whatever came before, so does every run of appends from the empty history of a new
  session (or from any history within the cap), and the backend keeps at most 12 of the
  entries it is sent. Appending the two entries of a turn to a history of exactly 12
  gives 12 entries again: the two oldest are gone, the other ten follow in their order,
  then the two new ones.
\<close>

theorem history_cap:
  "length (appendTurn t r prev) \<le> 12 \<and>
   length (appendTurns [] turns) \<le> 12 \<and>
   (length h \<le> 12 \<longrightarrow> length (appendTurns h turns) \<le> 12) \<and>
   length (parse_history P f) \<le> 12 \<and>
   (length prev = 12 \<longrightarrow>
      length (appendTurn t r prev) = 12 \<and>
      appendTurn t r prev =
        drop 2 prev @
          [\<lparr>role = User, content = t\<rparr>,
           \<lparr>role = Assistant, content = (case r of Some x \<Rightarrow> x | None \<Rightarrow> [])\<rparr>])"
  using length_appendTurns [of "[]" turns] length_appendTurns [of h turns]
  by (simp add: length_appendTurn appendTurn_eq parse_history_bounded)

theorem history_cap_witness:
  "length (example_history 12) = 12 \<and>
   length (appendTurn ''Hola'' (Some ''Que tal?'') (example_history 12)) = 12 \<and>
   appendTurn ''Hola'' (Some ''Que tal?'') (example_history 12) =
     drop 2 (example_history 12) @
       [\<lparr>role = User, content = ''Hola''\<rparr>, \<lparr>role = Assistant, content = ''Que tal?''\<rparr>] \<and>
   length (appendTurns (example_history 12) [(''Hola'', Some ''Que tal?''), (''Adios'', None)])
     \<le> 12"
proof -
  have full: "length (example_history 12) = 12"
    by (simp add: example_history_def)
  show ?thesis
    using full
      history_cap [of "''Hola''" "Some ''Que tal?''" "example_history 12"
        "[(''Hola'', Some ''Que tal?''), (''Adios'', None)]" "example_history 12"]
    by (simp del: appendTurns.simps)
qed

section \<open>What \<open>stopAndSend\<close> and \<open>startRecording\<close> do to the machine and the history\<close>

text \<open>
  C2, as the code has it. When the recorder has stopped and has no URI (\<open>null\<close> or the
  empty string), \<open>stopAndSend\<close> makes no request, sets the error message
  \<open>No recording URI\<close> and leaves the history as it was. \<open>PRESS_UP\<close> has been dispatched
  before the URI is tested and \<open>UPLOAD_ERR\<close> is dispatched by the catch block: from
  \<open>Listening\<close> the machine enters \<open>Uploading\<close> and then \<open>Error\<close>, where it stays.
\<close>

theorem no_uri_aborts_turn:
  assumes "recordingRef c = Some rec" and "stopAndUnloadAsync rec = None"
    and "getURI rec = None \<or> getURI rec = Some []"
  shows "sent (stopAndSend env c) = sent c \<and>
         errorMsg (stopAndSend env c) = Some ''No recording URI'' \<and>
         history (stopAndSend env c) = history c \<and>
         recordingRef (stopAndSend env c) = None \<and>
         entered (stopAndSend env c) =
           entered c @ [reducer (state c) PRESS_UP,
                        reducer (reducer (state c) PRESS_UP) UPLOAD_ERR] \<and>
         (state c = Listening \<longrightarrow>
            state (stopAndSend env c) = Error \<and>
            entered (stopAndSend env c) = entered c @ [Uploading, Error])"
  using assms by (auto simp add: stopAndSend_def Let_def)

theorem no_uri_aborts_turn_witness:
  "recordingRef (listening_Home no_uri_recording) = Some no_uri_recording \<and>
   stopAndUnloadAsync no_uri_recording = None \<and>
   getURI no_uri_recording = None \<and>
   state (listening_Home no_uri_recording) = Listening \<and>
   sent (stopAndSend (reply_env (ok_response full_reply)) (listening_Home no_uri_recording)) = [] \<and>
   errorMsg (stopAndSend (reply_env (ok_response full_reply)) (listening_Home no_uri_recording)) =
     Some ''No recording URI'' \<and>
   history (stopAndSend (reply_env (ok_response full_reply)) (listening_Home no_uri_recording)) = [] \<and>
   state (stopAndSend (reply_env (ok_response full_reply)) (listening_Home no_uri_recording)) = Error"
proof -
  have home: "listening_Home no_uri_recording =
       \<lparr>state = Listening, errorMsg = None, history = [], isReplayDisabled = True,
        recordingRef = Some no_uri_recording, soundRef = None, entered = [Listening],
        sent = []\<rparr>"
    by (rule listening_Home_fields) (simp_all add: no_uri_recording_def)
  have h1: "recordingRef (listening_Home no_uri_recording) = Some no_uri_recording"
    by (simp add: home)
  have h2: "stopAndUnloadAsync no_uri_recording = None"
    by (simp add: no_uri_recording_def)
  have h3: "getURI no_uri_recording = None \<or> getURI no_uri_recording = Some []"
    by (simp add: no_uri_recording_def)
  have st: "state (listening_Home no_uri_recording) = Listening"
    and se: "sent (listening_Home no_uri_recording) = []"
    and hi: "history (listening_Home no_uri_recording) = []"
    by (simp_all add: home)
  have uri: "getURI no_uri_recording = None"
    by (simp add: no_uri_recording_def)
  show ?thesis
    using no_uri_aborts_turn [OF h1 h2 h3, of "reply_env (ok_response full_reply)"]
      h1 h2 uri st se hi
    by simp
qed

text \<open>
  The claim as it is written fails: released with a recorder that has no URI, the
  machine goes from \<open>Listening\<close> into \<open>Uploading\<close> before it reaches \<open>Error\<close>.
\<close>

theorem no_uri_enters_uploading:
  "state (listening_Home no_uri_recording) = Listening \<and>
   getURI no_uri_recording = None \<and>
   entered (onPressOut (reply_env (ok_response full_reply)) (listening_Home no_uri_recording)) =
     [Listening, Uploading, Error] \<and>
   sent (onPressOut (reply_env (ok_response full_reply)) (listening_Home no_uri_recording)) = []"
proof -
  have home: "listening_Home no_uri_recording =
       \<lparr>state = Listening, errorMsg = None, history = [], isReplayDisabled = True,
        recordingRef = Some no_uri_recording, soundRef = None, entered = [Listening],
        sent = []\<rparr>"
    by (rule listening_Home_fields) (simp_all add: no_uri_recording_def)
  have rec: "stopAndUnloadAsync no_uri_recording = None" "getURI no_uri_recording = None"
    by (simp_all add: no_uri_recording_def)
  show ?thesis
    by (simp add: home rec onPressOut_def stopAndSend_def Let_def)
qed

text \<open>
  C4, as the code has it. \<open>stopAndSend\<close> changes the history only when the turn got a
  successful response that carries a transcript: then the history gains a user entry
  with the transcript and after it an assistant entry with the reply text (the empty
  string when the response has none), and keeps its last 12 entries. A successful
  response with no transcript, and a turn with no successful response (no recorder, a
  recorder that fails to stop or has no URI, a request that fails, a status that is not
  ok, a body that cannot be read or has no audio), leave the history as it was. The
  history is written before the audio of the reply is loaded.
\<close>

theorem history_after_stopAndSend:
  "history (stopAndSend env c) =
     (case turn_reply env c of
        None \<Rightarrow> history c
      | Some reply \<Rightarrow>
          (case transcript reply of
             None \<Rightarrow> history c
           | Some t \<Rightarrow>
               drop (length (history c) - 10)
                 (history c @
                    [\<lparr>role = User, content = t\<rparr>,
                     \<lparr>role = Assistant,
                      content = (case replyText reply of Some r \<Rightarrow> r | None \<Rightarrow> [])\<rparr>])))"
proof (cases "recordingRef c")
  case None
  then show ?thesis by (simp add: stopAndSend_def turn_reply_def)
next
  case (Some rec)
  show ?thesis
  proof (cases "stopAndUnloadAsync rec")
    case stop_fails: (Some e)
    with Some show ?thesis by (simp add: stopAndSend_def turn_reply_def)
  next
    case stopped: None
    show ?thesis
    proof (cases "getURI rec")
      case None
      with Some stopped show ?thesis by (simp add: stopAndSend_def turn_reply_def Let_def)
    next
      case uri: (Some u)
      show ?thesis
      proof (cases "u = []")
        case True
        with Some stopped uri show ?thesis
          by (simp add: stopAndSend_def turn_reply_def Let_def)
      next
        case False
        have "turn_reply env c = successful_reply (fetch env (upload_request env c u))"
          using Some stopped uri False by (simp add: turn_reply_def)
        then show ?thesis
          using stopAndSend_sends [OF Some stopped uri False, of env]
          by (simp add: history_receive appendTurn_eq split: option.splits)
      qed
    qed
  qed
qed

theorem history_after_stopAndSend_witness:
  "turn_reply (reply_env (ok_response full_reply)) (listening_Home good_recording) =
     Some full_reply \<and>
   history (stopAndSend (reply_env (ok_response full_reply)) (listening_Home good_recording)) =
     [\<lparr>role = User, content = ''Hola''\<rparr>,
      \<lparr>role = Assistant, content = ''Hola! Como estas?''\<rparr>] \<and>
   turn_reply (reply_env (Rejects (ErrorObj ''Network request failed'')))
     (listening_Home good_recording) = None \<and>
   history (stopAndSend (reply_env (Rejects (ErrorObj ''Network request failed'')))
     (listening_Home good_recording)) = []"
proof -
  have home: "listening_Home good_recording =
       \<lparr>state = Listening, errorMsg = None, history = [], isReplayDisabled = True,
        recordingRef = Some good_recording, soundRef = None, entered = [Listening],
        sent = []\<rparr>"
    by (rule listening_Home_fields) (simp_all add: good_recording_def)
  have rec: "stopAndUnloadAsync good_recording = None"
    "getURI good_recording = Some ''file:///tmp/rec/turn.caf''"
    by (simp_all add: good_recording_def)
  have good: "turn_reply (reply_env (ok_response full_reply)) (listening_Home good_recording) =
     Some full_reply"
    by (simp add: home rec turn_reply_def reply_env_def ok_response_def
          successful_reply_def full_reply_def)
  have bad: "turn_reply (reply_env (Rejects (ErrorObj ''Network request failed'')))
     (listening_Home good_recording) = None"
    by (simp add: home rec turn_reply_def reply_env_def successful_reply_def)
  have hi: "history (listening_Home good_recording) = []"
    by (simp add: home)
  show ?thesis
    using history_after_stopAndSend
        [of "reply_env (ok_response full_reply)" "listening_Home good_recording"]
      history_after_stopAndSend
        [of "reply_env (Rejects (ErrorObj ''Network request failed''))"
          "listening_Home good_recording"]
      good bad hi
    by (simp add: full_reply_def)
qed

text \<open>
  The claim as it is written fails: the response of the earlier backend is successful
  (status ok, audio present) and the turn reaches \<open>Speaking\<close>, but it carries no
  transcript and nothing is appended.
\<close>

theorem success_without_transcript:
  "successful_reply (ok_response audio_only_reply) = Some audio_only_reply \<and>
   state (onPressOut (reply_env (ok_response audio_only_reply)) (listening_Home good_recording)) =
     Speaking \<and>
   history (onPressOut (reply_env (ok_response audio_only_reply)) (listening_Home good_recording)) =
     history (listening_Home good_recording)"
proof -
  have home: "listening_Home good_recording =
       \<lparr>state = Listening, errorMsg = None, history = [], isReplayDisabled = True,
        recordingRef = Some good_recording, soundRef = None, entered = [Listening],
        sent = []\<rparr>"
    by (rule listening_Home_fields) (simp_all add: good_recording_def)
  have rec: "stopAndUnloadAsync good_recording = None"
    "getURI good_recording = Some ''file:///tmp/rec/turn.caf''"
    by (simp_all add: good_recording_def)
  show ?thesis
    by (simp add: home rec onPressOut_def stopAndSend_def Let_def
          reply_env_def ok_response_def audio_only_reply_def receive_def play_reply_def
          successful_reply_def)
qed

text \<open>
  C7. A turn released in \<open>Listening\<close> whose recorder stops with a URI makes its request
  from \<open>Uploading\<close>. When that request gets no successful response (\<open>fetch\<close> rejects, the
  status is not ok, the body cannot be read, or the body has no audio), the machine goes
  to \<open>Error\<close>, an error message is set and the history is what it was. A \<open>CANCEL\<close> then
  takes the machine to \<open>Idle\<close>.
\<close>

theorem failed_upload_goes_to_error:
  assumes "state c = Listening" and "recordingRef c = Some rec"
    and "stopAndUnloadAsync rec = None" and "getURI rec = Some u" and "u \<noteq> []"
    and "successful_reply (fetch env (upload_request env c u)) = None"
  shows "state (stopAndSend env c) = Error \<and>
         entered (stopAndSend env c) = entered c @ [Uploading, Uploading, Error] \<and>
         sent (stopAndSend env c) = sent c @ [upload_request env c u] \<and>
         history (stopAndSend env c) = history c \<and>
         errorMsg (stopAndSend env c) \<noteq> None \<and>
         reducer (state (stopAndSend env c)) CANCEL = Idle \<and>
         state (dispatch CANCEL (stopAndSend env c)) = Idle"
proof -
  let ?c3 = "(dispatch UPLOAD_START
               ((dispatch PRESS_UP (c\<lparr>recordingRef := None\<rparr>))\<lparr>errorMsg := None\<rparr>))
              \<lparr>sent := sent c @ [upload_request env c u]\<rparr>"
  have run: "stopAndSend env c = receive env (fetch env (upload_request env c u)) ?c3"
    using stopAndSend_sends [OF assms(2-5)] .
  have st: "state ?c3 = Uploading" and en: "entered ?c3 = entered c @ [Uploading, Uploading]"
    and hi: "history ?c3 = history c"
    using assms(1) by simp_all
  show ?thesis
    unfolding run
    using failed_receive [OF assms(6), of env ?c3] st en hi
    by (simp add: history_receive sent_receive assms(6))
qed

theorem failed_upload_goes_to_error_witness:
  "state (listening_Home good_recording) = Listening \<and>
   recordingRef (listening_Home good_recording) = Some good_recording \<and>
   stopAndUnloadAsync good_recording = None \<and>
   getURI good_recording = Some ''file:///tmp/rec/turn.caf'' \<and>
   successful_reply
     (fetch (reply_env (Rejects (ErrorObj ''Network request failed'')))
        (upload_request (reply_env (Rejects (ErrorObj ''Network request failed'')))
           (listening_Home good_recording) ''file:///tmp/rec/turn.caf'')) = None \<and>
   state (stopAndSend (reply_env (Rejects (ErrorObj ''Network request failed'')))
            (listening_Home good_recording)) = Error \<and>
   history (stopAndSend (reply_env (Rejects (ErrorObj ''Network request failed'')))
              (listening_Home good_recording)) = [] \<and>
   state (dispatch CANCEL
            (stopAndSend (reply_env (Rejects (ErrorObj ''Network request failed'')))
               (listening_Home good_recording))) = Idle"
proof -
  let ?env = "reply_env (Rejects (ErrorObj ''Network request failed''))"
  have home: "listening_Home good_recording =
       \<lparr>state = Listening, errorMsg = None, history = [], isReplayDisabled = True,
        recordingRef = Some good_recording, soundRef = None, entered = [Listening],
        sent = []\<rparr>"
    by (rule listening_Home_fields) (simp_all add: good_recording_def)
  have h1: "state (listening_Home good_recording) = Listening"
    and h2: "recordingRef (listening_Home good_recording) = Some good_recording"
    and hi: "history (listening_Home good_recording) = []"
    by (simp_all add: home)
  have h3: "stopAndUnloadAsync good_recording = None"
    and h4: "getURI good_recording = Some ''file:///tmp/rec/turn.caf''"
    by (simp_all add: good_recording_def)
  have h5: "''file:///tmp/rec/turn.caf'' \<noteq> []"
    by simp
  have h6: "successful_reply
     (fetch ?env (upload_request ?env (listening_Home good_recording)
        ''file:///tmp/rec/turn.caf'')) = None"
    by (simp add: reply_env_def successful_reply_def)
  show ?thesis
    using failed_upload_goes_to_error [OF h1 h2 h3 h4 h5 h6] h1 h2 h3 h4 h6 hi
    by simp
qed

text \<open>
  C8. When preparing or starting the recorder fails, \<open>startRecording\<close> dispatches
  \<open>CANCEL\<close> after its \<open>PRESS_DOWN\<close> and sets an error message (the message of the failure,
  or \<open>Failed to start recording\<close> when it has none); the recorder ref is not set. Whatever
  the state was, the machine is not left in \<open>Listening\<close>; from \<open>Idle\<close> it passes through
  \<open>Listening\<close> and is back in \<open>Idle\<close>.
\<close>

theorem acquisition_failure_returns_to_idle:
  assumes "prepareToRecordAsync rec = Some e \<or>
           (prepareToRecordAsync rec = None \<and> startAsync rec = Some e)"
  shows "state (startRecording rec c) = reducer (reducer (state c) PRESS_DOWN) CANCEL \<and>
         state (startRecording rec c) \<noteq> Listening \<and>
         (state c = Idle \<longrightarrow>
            state (startRecording rec c) = Idle \<and>
            entered (startRecording rec c) = entered c @ [Listening, Idle]) \<and>
         errorMsg (startRecording rec c) =
           Some (case message_of e of Some m \<Rightarrow> m | None \<Rightarrow> ''Failed to start recording'') \<and>
         recordingRef (startRecording rec c) = recordingRef c \<and>
         history (startRecording rec c) = history c"
  using assms cancel_after_press_down [of "state c"]
  by (auto simp add: startRecording_def Let_def)

theorem acquisition_failure_returns_to_idle_witness:
  "prepareToRecordAsync denied_recording =
     Some (ErrorObj ''Missing audio recording permissions.'') \<and>
   state initial_Home = Idle \<and>
   state (startRecording denied_recording initial_Home) = Idle \<and>
   entered (startRecording denied_recording initial_Home) = [Listening, Idle] \<and>
   errorMsg (startRecording denied_recording initial_Home) =
     Some ''Missing audio recording permissions.'' \<and>
   recordingRef (startRecording denied_recording initial_Home) = None"
proof -
  have h: "prepareToRecordAsync denied_recording =
             Some (ErrorObj ''Missing audio recording permissions.'') \<or>
           (prepareToRecordAsync denied_recording = None \<and>
            startAsync denied_recording =
              Some (ErrorObj ''Missing audio recording permissions.''))"
    by (simp add: denied_recording_def)
  have p: "prepareToRecordAsync denied_recording =
     Some (ErrorObj ''Missing audio recording permissions.'')"
    by (simp add: denied_recording_def)
  have i: "state initial_Home = Idle" "entered initial_Home = []"
    "recordingRef initial_Home = None"
    by (simp_all add: initial_Home_def)
  show ?thesis
    using acquisition_failure_returns_to_idle [OF h, of initial_Home] p i
    by simp
qed

section \<open>Reading the history field on the backend\<close>

text \<open>
  C5, as the code has it. A history field that is missing, empty, not JSON text, or JSON
  that is no array gives the empty history and no error. A field holding an array gives
  the entries that pass the filter, in their order, the others dropped, and of these
  the last 12 when there are more than 12. An entry passes exactly when it is an object
  whose \<open>role\<close> is the string \<open>user\<close> or \<open>assistant\<close> and whose \<open>content\<close> is a string; it
  is read with that role and that content.
\<close>

theorem parse_history_cases:
  "(fieldToString f = None \<longrightarrow> parse_history P f = []) \<and>
   (fieldToString f = Some raw \<and> (raw = [] \<or> P raw = None) \<longrightarrow> parse_history P f = []) \<and>
   (fieldToString f = Some raw \<and> P raw = Some j \<and> (\<forall>ms. j \<noteq> JArr ms) \<longrightarrow>
      parse_history P f = []) \<and>
   (fieldToString f = Some raw \<and> raw \<noteq> [] \<and> P raw = Some (JArr ms) \<longrightarrow>
      parse_history P f =
        drop (length (filter is_Msg ms) - 12) (map as_Msg (filter is_Msg ms)) \<and>
      (length (filter is_Msg ms) \<le> 12 \<longrightarrow>
         parse_history P f = map as_Msg (filter is_Msg ms))) \<and>
   (is_Msg m \<longleftrightarrow>
      (\<exists>kvs r s. m = JObj kvs \<and> map_of kvs ''role'' = Some (JStr r) \<and>
         (r = ''user'' \<or> r = ''assistant'') \<and> map_of kvs ''content'' = Some (JStr s))) \<and>
   (is_Msg m \<longrightarrow>
      property m ''role'' = Some (JStr (role_name (role (as_Msg m)))) \<and>
      property m ''content'' = Some (JStr (content (as_Msg m))))"
proof (intro conjI impI)
  assume "fieldToString f = None"
  then show "parse_history P f = []" by (simp add: parse_history_def)
next
  assume "fieldToString f = Some raw \<and> (raw = [] \<or> P raw = None)"
  then show "parse_history P f = []" by (auto simp add: parse_history_def)
next
  assume "fieldToString f = Some raw \<and> P raw = Some j \<and> (\<forall>ms. j \<noteq> JArr ms)"
  then show "parse_history P f = []" by (cases j) (auto simp add: parse_history_def)
next
  assume a: "fieldToString f = Some raw \<and> raw \<noteq> [] \<and> P raw = Some (JArr ms)"
  then show "parse_history P f =
        drop (length (filter is_Msg ms) - 12) (map as_Msg (filter is_Msg ms))"
    by (simp add: parse_history_array)
  assume "length (filter is_Msg ms) \<le> 12"
  with a show "parse_history P f = map as_Msg (filter is_Msg ms)"
    by (simp add: parse_history_array)
next
  show "is_Msg m \<longleftrightarrow>
      (\<exists>kvs r s. m = JObj kvs \<and> map_of kvs ''role'' = Some (JStr r) \<and>
         (r = ''user'' \<or> r = ''assistant'') \<and> map_of kvs ''content'' = Some (JStr s))"
    by (rule is_Msg_iff)
next
  assume "is_Msg m"
  then obtain kvs r s where "m = JObj kvs" "map_of kvs ''role'' = Some (JStr r)"
    "r = ''user'' \<or> r = ''assistant''" "map_of kvs ''content'' = Some (JStr s)"
    unfolding is_Msg_iff by blast
  then show "property m ''role'' = Some (JStr (role_name (role (as_Msg m))))"
    and "property m ''content'' = Some (JStr (content (as_Msg m)))"
    by (auto simp add: as_Msg_def)
qed

theorem parse_history_cases_witness:
  "fieldToString (Several []) = None \<and>
   parse_history ref_parse (Several []) = [] \<and>
   ref_parse ''{not json'' = None \<and>
   parse_history ref_parse (Single ''{not json'') = [] \<and>
   ref_parse ''null'' = Some JNull \<and>
   parse_history ref_parse (Several [''null'', ''[]'']) = [] \<and>
   ref_parse (ref_stringify (JArr mixed_entries)) = Some (JArr mixed_entries) \<and>
   parse_history ref_parse (Single (ref_stringify (JArr mixed_entries))) =
     [\<lparr>role = User, content = ''Hola''\<rparr>, \<lparr>role = Assistant, content = ''Que tal?''\<rparr>]"
proof -
  have a1: "fieldToString (Several []) = None"
    by simp
  have b1: "fieldToString (Single ''{not json'') = Some ''{not json''"
    by simp
  have b2: "ref_parse ''{not json'' = None"
    by code_simp
  have c1: "fieldToString (Several [''null'', ''[]'']) = Some ''null''"
    by simp
  have c2: "ref_parse ''null'' = Some JNull"
    by code_simp
  have d1: "fieldToString (Single (ref_stringify (JArr mixed_entries))) =
              Some (ref_stringify (JArr mixed_entries))"
    by simp
  have d2: "ref_stringify (JArr mixed_entries) \<noteq> []"
    by code_simp
  have d3: "ref_parse (ref_stringify (JArr mixed_entries)) = Some (JArr mixed_entries)"
    by code_simp
  have d4: "map as_Msg (filter is_Msg mixed_entries) =
     [\<lparr>role = User, content = ''Hola''\<rparr>, \<lparr>role = Assistant, content = ''Que tal?''\<rparr>]"
    by code_simp
  have d5: "length (filter is_Msg mixed_entries) = 2"
    by code_simp
  show ?thesis
    using parse_history_cases [where f = "Several []" and P = ref_parse]
      parse_history_cases [where f = "Single ''{not json''" and P = ref_parse
        and raw = "''{not json''"]
      parse_history_cases [where f = "Several [''null'', ''[]'']" and P = ref_parse
        and raw = "''null''" and j = JNull]
      parse_history_cases [where f = "Single (ref_stringify (JArr mixed_entries))"
        and P = ref_parse and raw = "ref_stringify (JArr mixed_entries)"
        and ms = mixed_entries]
      a1 b1 b2 c1 c2 d1 d2 d3 d4 d5
    by simp
qed

text \<open>
  The claim as it is written fails: of an array with 13 valid entries and one entry
  whose role is \<open>system\<close>, 12 entries come back, not the 13 valid ones.
\<close>

theorem parse_history_drops_valid:
  "ref_parse (ref_stringify (JArr thirteen_and_one)) = Some (JArr thirteen_and_one) \<and>
   length (map as_Msg (filter is_Msg thirteen_and_one)) = 13 \<and>
   length (parse_history ref_parse (Single (ref_stringify (JArr thirteen_and_one)))) = 12 \<and>
   parse_history ref_parse (Single (ref_stringify (JArr thirteen_and_one))) \<noteq>
     map as_Msg (filter is_Msg thirteen_and_one)"
proof -
  have a: "ref_parse (ref_stringify (JArr thirteen_and_one)) = Some (JArr thirteen_and_one)"
    by code_simp
  have b: "length (map as_Msg (filter is_Msg thirteen_and_one)) = 13"
    by code_simp
  have c: "length (parse_history ref_parse (Single (ref_stringify (JArr thirteen_and_one)))) = 12"
    by code_simp
  from b c have "parse_history ref_parse (Single (ref_stringify (JArr thirteen_and_one))) \<noteq>
     map as_Msg (filter is_Msg thirteen_and_one)"
    by auto
  with a b c show ?thesis by blast
qed

text \<open>
  C6. Serializing a history and deserializing the text gives back a history equal to
  the original, for every history within the cap of 12 entries, and so for every
  history a session of the client can hold. This holds with the writer and reader of
  this file, and with every \<open>JSON.stringify\<close> and \<open>JSON.parse\<close> that read back what was
  written for the history, however the form delivers the field.
\<close>

theorem history_round_trip:
  "(length h \<le> 12 \<longrightarrow>
      parse_history ref_parse (Single (ref_stringify (history_json h))) = h) \<and>
   parse_history ref_parse
     (Single (ref_stringify (history_json (history (run acts initial_Home))))) =
     history (run acts initial_Home) \<and>
   (length h \<le> 12 \<and> fieldToString f = Some (S (history_json h)) \<and>
    S (history_json h) \<noteq> [] \<and> P (S (history_json h)) = Some (history_json h) \<longrightarrow>
      parse_history P f = h)"
proof (intro conjI impI)
  have ref: "parse_history ref_parse (Single (ref_stringify (history_json k))) =
               drop (length k - 12) k" for k
    using parse_history_of_field
        [where S = ref_stringify and P = ref_parse and h = k
          and f = "Single (ref_stringify (history_json k))"]
    by (simp add: ref_round_trip ref_stringify_nonempty del: ref_stringify.simps)
  show "parse_history ref_parse (Single (ref_stringify (history_json h))) = h"
    if "length h \<le> 12"
    using ref [of h] that by simp
  show "parse_history ref_parse
     (Single (ref_stringify (history_json (history (run acts initial_Home))))) =
     history (run acts initial_Home)"
    using ref [of "history (run acts initial_Home)"] session_cap [of acts] by simp
  show "parse_history P f = h"
    if "length h \<le> 12 \<and> fieldToString f = Some (S (history_json h)) \<and>
        S (history_json h) \<noteq> [] \<and> P (S (history_json h)) = Some (history_json h)"
    using parse_history_of_field [of f S h P] that by simp
qed

theorem history_round_trip_witness:
  "length (example_history 3) \<le> 12 \<and>
   parse_history ref_parse (Single (ref_stringify (history_json (example_history 3)))) =
     example_history 3 \<and>
   history (run [PressIn good_recording, PressOut (reply_env (ok_response full_reply)),
                 PlaybackStatus True] initial_Home) =
     [\<lparr>role = User, content = ''Hola''\<rparr>,
      \<lparr>role = Assistant, content = ''Hola! Como estas?''\<rparr>] \<and>
   parse_history ref_parse
     (Single (ref_stringify (history_json
        (history (run [PressIn good_recording, PressOut (reply_env (ok_response full_reply)),
                       PlaybackStatus True] initial_Home))))) =
     [\<lparr>role = User, content = ''Hola''\<rparr>,
      \<lparr>role = Assistant, content = ''Hola! Como estas?''\<rparr>] \<and>
   fieldToString (Several [ref_stringify (history_json (example_history 3))]) =
     Some (ref_stringify (history_json (example_history 3))) \<and>
   ref_stringify (history_json (example_history 3)) \<noteq> [] \<and>
   ref_parse (ref_stringify (history_json (example_history 3))) =
     Some (history_json (example_history 3)) \<and>
   parse_history ref_parse (Several [ref_stringify (history_json (example_history 3))]) =
     example_history 3"
proof -
  let ?acts = "[PressIn good_recording, PressOut (reply_env (ok_response full_reply)),
                PlaybackStatus True]"
  have h1: "length (example_history 3) \<le> 12"
    by (simp add: example_history_def)
  have h2: "fieldToString (Several [ref_stringify (history_json (example_history 3))]) =
     Some (ref_stringify (history_json (example_history 3)))"
    by simp
  have h3: "ref_stringify (history_json (example_history 3)) \<noteq> []"
    by code_simp
  have h4: "ref_parse (ref_stringify (history_json (example_history 3))) =
     Some (history_json (example_history 3))"
    by code_simp
  have home: "listening_Home good_recording =
       \<lparr>state = Listening, errorMsg = None, history = [], isReplayDisabled = True,
        recordingRef = Some good_recording, soundRef = None, entered = [Listening],
        sent = []\<rparr>"
    by (rule listening_Home_fields) (simp_all add: good_recording_def)
  have rec: "stopAndUnloadAsync good_recording = None"
    "getURI good_recording = Some ''file:///tmp/rec/turn.caf''"
    by (simp_all add: good_recording_def)
  have "history (run ?acts initial_Home) =
          history (onPlaybackStatusUpdate True
            (onPressOut (reply_env (ok_response full_reply)) (listening_Home good_recording)))"
    by (simp add: run_def listening_Home_def)
  also have "\<dots> = [\<lparr>role = User, content = ''Hola''\<rparr>,
      \<lparr>role = Assistant, content = ''Hola! Como estas?''\<rparr>]"
    by (simp add: home rec onPlaybackStatusUpdate_def onPressOut_def stopAndSend_def Let_def
          reply_env_def ok_response_def full_reply_def receive_def play_reply_def
          appendTurn_def)
  finally have h5: "history (run ?acts initial_Home) =
      [\<lparr>role = User, content = ''Hola''\<rparr>,
       \<lparr>role = Assistant, content = ''Hola! Como estas?''\<rparr>]" .
  show ?thesis
    using history_round_trip [where h = "example_history 3" and acts = ?acts
        and f = "Several [ref_stringify (history_json (example_history 3))]"
        and S = ref_stringify and P = ref_parse]
      h1 h2 h3 h4 h5
    by (simp del: ref_stringify.simps)
qed

section \<open>The handler\<close>

text \<open>
  C9. For a POST whose form is parsed and whose audio is transcribed, the third thing
  the handler does is the chat call, and its messages are: the system prompt, then the
  entries of the parsed history in their order, each with its own role and content,
  then one user message with the transcription text (the empty string when the
  transcription has no text). When the chat call answers, the reply is the content of
  its first choice, or the fallback sentence when there is no first choice or it has no
  content; this reply is what the speech call is given and what the response returns as
  \<open>replyText\<close>.
\<close>

theorem chat_request_of_post:
  assumes "req_method req = Some ''POST''"
    and "parseForm (JSON_parse svc) (req_form req) = Inr (file, hist)"
    and "sreq = \<lparr>stt_path = (case filepath file of Some path \<Rightarrow> path | None \<Rightarrow> []),
                  stt_name = (case originalFilename file of
                                None \<Rightarrow> ''audio.m4a''
                              | Some name \<Rightarrow> if name = [] then ''audio.m4a'' else name),
                  stt_model = ''gpt-4o-mini-transcribe''\<rparr>"
    and "transcriptions_create svc sreq = Inr stt_text"
    and "userText = (case stt_text of Some t \<Rightarrow> t | None \<Rightarrow> [])"
    and "creq = \<lparr>chat_model = ''gpt-4o-mini'',
                  messages = (SystemRole, SYSTEM_PROMPT) #
                             map (\<lambda>m. (MsgRole (role m), content m)) hist @
                             [(MsgRole User, userText)],
                  temperature = ''0.7'', max_tokens = 200\<rparr>"
    and "reply = (case choices of
                    [] \<Rightarrow> FALLBACK_REPLY
                  | None # cs \<Rightarrow> FALLBACK_REPLY
                  | Some text # cs \<Rightarrow> text)"
    and "treq = \<lparr>tts_model = ''tts-1'', voice = ''alloy'', input = reply\<rparr>"
  shows "take 3 (snd (handler svc req)) = [ReadBody, Transcribe sreq, Chat creq] \<and>
         (\<exists>flds fls. req_form req = FormParsed flds fls \<and>
            hist = parse_history (JSON_parse svc)
                     (case map_of flds ''history'' of None \<Rightarrow> Undefined | Some f \<Rightarrow> f)) \<and>
         (completions_create svc creq = Inr choices \<longrightarrow>
            snd (handler svc req) = [ReadBody, Transcribe sreq, Chat creq, Speech treq] \<and>
            (speech_create svc treq = Inr audioBuf \<longrightarrow>
               fst (handler svc req) =
                 \<lparr>res_status = 200,
                  res_headers = [(''Content-Type'', ''application/json''),
                                 (''Cache-Control'', ''no-store'')],
                  res_body = JObj [(''audioBase64'', JStr (base64 svc audioBuf)),
                                   (''transcript'', JStr userText),
                                   (''replyText'', JStr reply)]\<rparr>))"
proof (intro conjI impI)
  have post: "handler svc req = handler_post svc req"
    using assms(1) by (simp add: handler_def)
  show "take 3 (snd (handler svc req)) = [ReadBody, Transcribe sreq, Chat creq]"
    unfolding post handler_post_def
    using assms(2-6) by (simp add: Let_def split: sum.splits)
  show "\<exists>flds fls. req_form req = FormParsed flds fls \<and>
            hist = parse_history (JSON_parse svc)
                     (case map_of flds ''history'' of None \<Rightarrow> Undefined | Some f \<Rightarrow> f)"
    using parseForm_history [OF assms(2)] by blast
  assume chat: "completions_create svc creq = Inr choices"
  show "snd (handler svc req) = [ReadBody, Transcribe sreq, Chat creq, Speech treq]"
    unfolding post handler_post_def
    using assms(2-8) chat by (simp add: Let_def split: sum.splits list.splits option.splits)
  assume "speech_create svc treq = Inr audioBuf"
  then show "fst (handler svc req) =
                 \<lparr>res_status = 200,
                  res_headers = [(''Content-Type'', ''application/json''),
                                 (''Cache-Control'', ''no-store'')],
                  res_body = JObj [(''audioBase64'', JStr (base64 svc audioBuf)),
                                   (''transcript'', JStr userText),
                                   (''replyText'', JStr reply)]\<rparr>"
    unfolding post handler_post_def
    using assms(2-8) chat by (simp add: Let_def split: list.splits option.splits)
qed

theorem chat_request_of_post_witness:
  "req_method (example_post (ref_stringify (history_json (example_history 2)))) = Some ''POST'' \<and>
   parseForm (JSON_parse example_services)
     (req_form (example_post (ref_stringify (history_json (example_history 2))))) =
     Inr (\<lparr>filepath = Some ''/tmp/upload_1'', originalFilename = Some ''turn.caf''\<rparr>,
          [\<lparr>role = User, content = ''0''\<rparr>, \<lparr>role = Assistant, content = ''1''\<rparr>]) \<and>
   snd (handler example_services
          (example_post (ref_stringify (history_json (example_history 2))))) =
     [ReadBody,
      Transcribe \<lparr>stt_path = ''/tmp/upload_1'', stt_name = ''turn.caf'',
                  stt_model = ''gpt-4o-mini-transcribe''\<rparr>,
      Chat \<lparr>chat_model = ''gpt-4o-mini'',
            messages = [(SystemRole, SYSTEM_PROMPT), (MsgRole User, ''0''),
                        (MsgRole Assistant, ''1''), (MsgRole User, ''Hola'')],
            temperature = ''0.7'', max_tokens = 200\<rparr>,
      Speech \<lparr>tts_model = ''tts-1'', voice = ''alloy'', input = FALLBACK_REPLY\<rparr>] \<and>
   res_body (fst (handler example_services
                    (example_post (ref_stringify (history_json (example_history 2)))))) =
     JObj [(''audioBase64'', JStr ''bXAz''), (''transcript'', JStr ''Hola''),
           (''replyText'', JStr FALLBACK_REPLY)] \<and>
   FALLBACK_REPLY = [CHR 0xC2, CHR 0xBF] @ ''Puedes repetir, por favor?''"
proof -
  let ?req = "example_post (ref_stringify (history_json (example_history 2)))"
  let ?file = "\<lparr>filepath = Some ''/tmp/upload_1'', originalFilename = Some ''turn.caf''\<rparr>"
  let ?hist = "[\<lparr>role = User, content = ''0''\<rparr>, \<lparr>role = Assistant, content = ''1''\<rparr>]"
  let ?sreq = "\<lparr>stt_path = ''/tmp/upload_1'', stt_name = ''turn.caf'',
                stt_model = ''gpt-4o-mini-transcribe''\<rparr>"
  let ?creq = "\<lparr>chat_model = ''gpt-4o-mini'',
            messages = [(SystemRole, SYSTEM_PROMPT), (MsgRole User, ''0''),
                        (MsgRole Assistant, ''1''), (MsgRole User, ''Hola'')],
            temperature = ''0.7'', max_tokens = 200\<rparr>"
  let ?treq = "\<lparr>tts_model = ''tts-1'', voice = ''alloy'', input = FALLBACK_REPLY\<rparr>"
  have h1: "req_method ?req = Some ''POST''"
    by (simp add: example_post_def)
  have read: "parse_history ref_parse
                (Several [ref_stringify (history_json (example_history 2))]) = ?hist"
    by code_simp
  have h2: "parseForm (JSON_parse example_services) (req_form ?req) = Inr (?file, ?hist)"
    by (simp add: example_post_def example_services_def parseForm_def read)
  have h3: "?sreq =
      \<lparr>stt_path = (case filepath ?file of Some path \<Rightarrow> path | None \<Rightarrow> []),
       stt_name = (case originalFilename ?file of
                     None \<Rightarrow> ''audio.m4a''
                   | Some name \<Rightarrow> if name = [] then ''audio.m4a'' else name),
       stt_model = ''gpt-4o-mini-transcribe''\<rparr>"
    by simp
  have h4: "transcriptions_create example_services ?sreq = Inr (Some ''Hola'')"
    by (simp add: example_services_def)
  have h5: "''Hola'' = (case Some ''Hola'' of Some t \<Rightarrow> t | None \<Rightarrow> [])"
    by simp
  have h6: "?creq =
      \<lparr>chat_model = ''gpt-4o-mini'',
       messages = (SystemRole, SYSTEM_PROMPT) #
                  map (\<lambda>m. (MsgRole (role m), content m)) ?hist @ [(MsgRole User, ''Hola'')],
       temperature = ''0.7'', max_tokens = 200\<rparr>"
    by simp
  have h7: "FALLBACK_REPLY =
      (case [None] of [] \<Rightarrow> FALLBACK_REPLY | None # cs \<Rightarrow> FALLBACK_REPLY | Some text # cs \<Rightarrow> text)"
    by simp
  have h8: "?treq = \<lparr>tts_model = ''tts-1'', voice = ''alloy'', input = FALLBACK_REPLY\<rparr>"
    by simp
  have chat: "completions_create example_services ?creq = Inr [None]"
    and speech: "speech_create example_services ?treq = Inr ''mp3''"
    and b64: "base64 example_services ''mp3'' = ''bXAz''"
    by (simp_all add: example_services_def)
  have fb: "FALLBACK_REPLY = [CHR 0xC2, CHR 0xBF] @ ''Puedes repetir, por favor?''"
    by (simp add: FALLBACK_REPLY_def)
  show ?thesis
    using chat_request_of_post [OF h1 h2 h3 h4 h5 h6 h7 h8, of "''mp3''"]
      h1 h2 chat speech b64 fb
    by simp
qed

text \<open>
  C10. A GET is answered with status 200 and the body \<open>{ok: true, route: "turn"}\<close>; a
  request whose method is neither GET nor POST (or is missing) is answered with status
  405 and the header \<open>Allow: POST\<close>. In both cases nothing is called and the body of the
  request is not read: the answer is the same whatever the services and the form are.
\<close>

theorem method_gate:
  "(req_method req = Some ''GET'' \<longrightarrow>
      handler svc req =
        (\<lparr>res_status = 200, res_headers = [],
          res_body = JObj [(''ok'', JBool True), (''route'', JStr ''turn'')]\<rparr>, [])) \<and>
   (req_method req \<noteq> Some ''GET'' \<and> req_method req \<noteq> Some ''POST'' \<longrightarrow>
      handler svc req =
        (\<lparr>res_status = 405, res_headers = [(''Allow'', ''POST'')],
          res_body = JObj [(''error'', JStr ''Method Not Allowed'')]\<rparr>, [])) \<and>
   (req_method req \<noteq> Some ''POST'' \<longrightarrow>
      handler svc req = handler svc' (req\<lparr>req_form := fp\<rparr>))"
  by (simp add: handler_def)

theorem method_gate_witness:
  "handler example_services \<lparr>req_method = Some ''GET'', req_form = FormParsed [] []\<rparr> =
     (\<lparr>res_status = 200, res_headers = [],
       res_body = JObj [(''ok'', JBool True), (''route'', JStr ''turn'')]\<rparr>, []) \<and>
   handler example_services \<lparr>req_method = Some ''DELETE'', req_form = FormParsed [] []\<rparr> =
     (\<lparr>res_status = 405, res_headers = [(''Allow'', ''POST'')],
       res_body = JObj [(''error'', JStr ''Method Not Allowed'')]\<rparr>, []) \<and>
   handler example_services \<lparr>req_method = Some ''DELETE'', req_form = FormParsed [] []\<rparr> =
     handler example_services
       (\<lparr>req_method = Some ''DELETE'', req_form = FormParsed [] []\<rparr>
          \<lparr>req_form := FormError (Other ''aborted'')\<rparr>)"
proof -
  have g: "req_method \<lparr>req_method = Some ''GET'', req_form = FormParsed [] []\<rparr> = Some ''GET''"
    by simp
  have d: "req_method \<lparr>req_method = Some ''DELETE'', req_form = FormParsed [] []\<rparr> \<noteq> Some ''GET''"
    "req_method \<lparr>req_method = Some ''DELETE'', req_form = FormParsed [] []\<rparr> \<noteq> Some ''POST''"
    by simp_all
  from g d
    method_gate [of "\<lparr>req_method = Some ''GET'', req_form = FormParsed [] []\<rparr>"
      example_services example_services "FormParsed [] []"]
    method_gate [of "\<lparr>req_method = Some ''DELETE'', req_form = FormParsed [] []\<rparr>"
      example_services example_services "FormError (Other ''aborted'')"]
  show ?thesis by blast
qed

end
